theory Spec2Isabelle
  imports Complex_Main
begin

section \<open>Adaptive moments (src/shape/SdssShape.cc): a shallow embedding\<close>

text \<open>
  The C++ works on \<^verbatim>\<open>float\<close> and \<^verbatim>\<open>double\<close>. The embedding keeps the one
  non-numeric value the code itself creates and tests for, NaN, and takes every other
  value as an exact real: rounding, overflow to an infinity and the difference between
  \<^verbatim>\<open>float\<close> and \<^verbatim>\<open>double\<close> are not modelled, with one exception: the bounds and
  the loop variables of the sub-pixel loops of calcmom are rounded to single precision,
  since there the rounding decides how many samples are taken. Arithmetic propagates NaN, every
  comparison with a NaN operand is false, and the square root of a negative number is NaN,
  as in IEEE 754. No division of the modelled code can meet a zero divisor (each one is
  guarded by a positivity test), so the value chosen for it, NaN, is never observed.
\<close>

subsection \<open>Numbers\<close>

datatype fp = NaN | Fin real

fun isnan :: "fp \<Rightarrow> bool" where
  "isnan NaN = True"
| "isnan (Fin x) = False"

fun lift1 :: "(real \<Rightarrow> real) \<Rightarrow> fp \<Rightarrow> fp" where
  "lift1 f (Fin x) = Fin (f x)"
| "lift1 f NaN = NaN"

fun lift2 :: "(real \<Rightarrow> real \<Rightarrow> real) \<Rightarrow> fp \<Rightarrow> fp \<Rightarrow> fp" where
  "lift2 f (Fin x) (Fin y) = Fin (f x y)"
| "lift2 f NaN y = NaN"
| "lift2 f (Fin x) NaN = NaN"

fun fp_divide :: "fp \<Rightarrow> fp \<Rightarrow> fp" where
  "fp_divide (Fin x) (Fin y) = (if y = 0 then NaN else Fin (x / y))"
| "fp_divide NaN y = NaN"
| "fp_divide (Fin x) NaN = NaN"

fun fp_less :: "fp \<Rightarrow> fp \<Rightarrow> bool" where
  "fp_less (Fin x) (Fin y) = (x < y)"
| "fp_less NaN y = False"
| "fp_less (Fin x) NaN = False"

fun fp_less_eq :: "fp \<Rightarrow> fp \<Rightarrow> bool" where
  "fp_less_eq (Fin x) (Fin y) = (x \<le> y)"
| "fp_less_eq NaN y = False"
| "fp_less_eq (Fin x) NaN = False"

instantiation fp :: "{plus, minus, uminus, times, inverse, abs, ord}"
begin

definition plus_fp :: "fp \<Rightarrow> fp \<Rightarrow> fp" where
  "plus_fp a b = lift2 (+) a b"

definition minus_fp :: "fp \<Rightarrow> fp \<Rightarrow> fp" where
  "minus_fp a b = lift2 (-) a b"

definition uminus_fp :: "fp \<Rightarrow> fp" where
  "uminus_fp a = lift1 uminus a"

definition times_fp :: "fp \<Rightarrow> fp \<Rightarrow> fp" where
  "times_fp a b = lift2 (*) a b"

definition divide_fp :: "fp \<Rightarrow> fp \<Rightarrow> fp" where
  "divide_fp a b = fp_divide a b"

definition inverse_fp :: "fp \<Rightarrow> fp" where
  "inverse_fp a = fp_divide (Fin 1) a"

definition abs_fp :: "fp \<Rightarrow> fp" where
  "abs_fp a = lift1 abs a"

definition less_fp :: "fp \<Rightarrow> fp \<Rightarrow> bool" where
  "less_fp a b = fp_less a b"

definition less_eq_fp :: "fp \<Rightarrow> fp \<Rightarrow> bool" where
  "less_eq_fp a b = fp_less_eq a b"

instance ..

end

text \<open>\<^verbatim>\<open>sqrt\<close>, \<^verbatim>\<open>exp\<close>, \<^verbatim>\<open>cos\<close>, \<^verbatim>\<open>sin\<close>, \<^verbatim>\<open>atan2\<close> of the C library.\<close>

fun fsqrt :: "fp \<Rightarrow> fp" where
  "fsqrt (Fin x) = (if x < 0 then NaN else Fin (sqrt x))"
| "fsqrt NaN = NaN"

definition fexp :: "fp \<Rightarrow> fp" where
  "fexp a = lift1 exp a"

definition fcos :: "fp \<Rightarrow> fp" where
  "fcos a = lift1 cos a"

definition fsin :: "fp \<Rightarrow> fp" where
  "fsin a = lift1 sin a"

definition atan2 :: "real \<Rightarrow> real \<Rightarrow> real" where
  "atan2 y x =
     (if 0 < x then arctan (y / x)
      else if x < 0 then (if 0 \<le> y then arctan (y / x) + pi else arctan (y / x) - pi)
      else if 0 < y then pi / 2
      else if y < 0 then - (pi / 2)
      else 0)"

definition fatan2 :: "fp \<Rightarrow> fp \<Rightarrow> fp" where
  "fatan2 a b = lift2 atan2 a b"

text \<open>\<^verbatim>\<open>std::numeric_limits<float>::epsilon()\<close> and \<^verbatim>\<open>std::numeric_limits<double>::epsilon()\<close>.\<close>

definition FLT_EPSILON :: fp where
  "FLT_EPSILON = Fin (1 / 2 ^ 23)"

definition DBL_EPSILON :: fp where
  "DBL_EPSILON = Fin (1 / 2 ^ 52)"

subsection \<open>Outcomes\<close>

text \<open>
  A failed \<^verbatim>\<open>assert\<close> aborts, \<^verbatim>\<open>LSST_EXCEPT\<close> throws, and a \<^verbatim>\<open>static_cast<int>\<close>
  of a NaN or of a value outside the range of \<^verbatim>\<open>int\<close> is undefined behaviour: each ends
  the run with an error. \<^verbatim>\<open>int\<close> is 32 bits wide.
\<close>

datatype error = AssertionFailed | DomainErrorException | UndefinedCast

definition bindE :: "error + 'a \<Rightarrow> ('a \<Rightarrow> error + 'b) \<Rightarrow> error + 'b" where
  "bindE m f = (case m of Inl e \<Rightarrow> Inl e | Inr x \<Rightarrow> f x)"

definition trunc_real :: "real \<Rightarrow> int" where
  "trunc_real x = (if 0 \<le> x then \<lfloor>x\<rfloor> else \<lceil>x\<rceil>)"

definition in_int_range :: "int \<Rightarrow> bool" where
  "in_int_range n = (- (2 ^ 31) \<le> n \<and> n \<le> 2 ^ 31 - 1)"

fun static_cast_int :: "fp \<Rightarrow> error + int" where
  "static_cast_int NaN = Inl UndefinedCast"
| "static_cast_int (Fin x) =
     (if in_int_range (trunc_real x) then Inr (trunc_real x) else Inl UndefinedCast)"

subsection \<open>Library types of lsst::afw and Eigen\<close>

text \<open>
  \<^verbatim>\<open>lsst::afw::geom::ellipses::Quadrupole\<close> (the second moments) and \<^verbatim>\<open>Axes\<close> (the
  semi-axes and the position angle) are library classes that are not under src/. Their
  constructors and setters, as used by getWeights, do not normalise and do not throw.
\<close>

record Quadrupole =
  ixx :: fp
  iyy :: fp
  ixy :: fp

record Axes =
  axis_a :: fp
  axis_b :: fp
  theta :: fp

text \<open>
  Modelled from the spec: the conversion \<^verbatim>\<open>Axes axes(q)\<close> of the library is not under
  src/. The spec has the degenerate branch "convert to axis representation (major/minor
  axis, position angle)": the principal-axes decomposition of the symmetric matrix
  ((ixx, ixy), (ixy, iyy)), the axes being the square roots of its eigenvalues.
\<close>

definition Axes_of_Quadrupole :: "Quadrupole \<Rightarrow> Axes" where
  "Axes_of_Quadrupole q =
     (let xx_p_yy = ixx q + iyy q;
          xx_m_yy = ixx q - iyy q;
          t = fsqrt (xx_m_yy * xx_m_yy + Fin 4 * ixy q * ixy q)
      in \<lparr> axis_a = fsqrt (Fin (1/2) * (xx_p_yy + t)),
           axis_b = fsqrt (Fin (1/2) * (xx_p_yy - t)),
           theta = Fin (1/2) * fatan2 (Fin 2 * ixy q) xx_m_yy \<rparr>)"

text \<open>
  Modelled from the spec: the conversion \<^verbatim>\<open>Quadrupole q2(axes)\<close> of the library is not
  under src/. The spec has "convert back to a covariance": the matrix with the squared
  axes as eigenvalues, rotated by the position angle.
\<close>

definition Quadrupole_of_Axes :: "Axes \<Rightarrow> Quadrupole" where
  "Quadrupole_of_Axes ax =
     (let a = axis_a ax * axis_a ax;
          b = axis_b ax * axis_b ax;
          c = fcos (theta ax);
          s = fsin (theta ax)
      in \<lparr> ixx = c * c * a + s * s * b,
           iyy = s * s * a + c * c * b,
           ixy = (a - b) * c * s \<rparr>)"

text \<open>
  Modelled from the spec: \<^verbatim>\<open>Quadrupole::getDeterminant\<close> of the library is not under
  src/; the spec's "regularized determinant" is the determinant of the 2x2 matrix.
\<close>

definition getDeterminant :: "Quadrupole \<Rightarrow> fp" where
  "getDeterminant q = ixx q * iyy q - ixy q * ixy q"

text \<open>
  Modelled from the spec: \<^verbatim>\<open>q2.getMatrix().inverse()\<close> is Eigen's inverse of the 2x2
  matrix ((ixx, ixy), (ixy, iyy)), not under src/ ("invert that regularized covariance"):
  the adjugate times the reciprocal of the determinant. The result is the triple of the
  entries (0,0), (1,0) and (1,1).
\<close>

definition Quadrupole_inverse :: "Quadrupole \<Rightarrow> fp \<times> fp \<times> fp" where
  "Quadrupole_inverse q =
     (let invdet = Fin 1 / getDeterminant q
      in (iyy q * invdet, - ixy q * invdet, ixx q * invdet))"

text \<open>
  \<^verbatim>\<open>lsst::afw::geom::BoxI\<close> is a library class that is not under src/; the spec's
  BoundingBox is the "integer [xmin,xmax] x [ymin,ymax]".
\<close>

record BoxI =
  getMinX :: int
  getMinY :: int
  getMaxX :: int
  getMaxY :: int

text \<open>
  Modelled from the spec: the constructor \<^verbatim>\<open>BoxI(llc, urc)\<close> of the library is not
  under src/. It builds the box that spans the two corners; the corners are ordered in
  each dimension, so that the minimum is not above the maximum.
\<close>

definition BoxI_corners :: "int \<times> int \<Rightarrow> int \<times> int \<Rightarrow> BoxI" where
  "BoxI_corners llc urc =
     \<lparr> getMinX = min (fst llc) (fst urc), getMinY = min (snd llc) (snd urc),
       getMaxX = max (fst llc) (fst urc), getMaxY = max (snd llc) (snd urc) \<rparr>"

subsection \<open>getWeights and getInterp\<close>

definition regularized_axes :: "fp \<Rightarrow> fp \<Rightarrow> fp \<Rightarrow> Axes" where
  "regularized_axes sigma11 sigma12 sigma22 =
     (let q = \<lparr> ixx = sigma11, iyy = sigma22, ixy = sigma12 \<rparr>;
          axes = Axes_of_Quadrupole q;
          iMin = Fin (1/12);
          axes = axes \<lparr> axis_a := fsqrt (axis_a axes * axis_a axes + iMin) \<rparr>;
          axes = axes \<lparr> axis_b := fsqrt (axis_b axes * axis_b axes + iMin) \<rparr>
      in axes)"

definition getWeights :: "fp \<Rightarrow> fp \<Rightarrow> fp \<Rightarrow> error + ((bool \<times> fp) \<times> fp \<times> fp \<times> fp)" where
  "getWeights sigma11 sigma12 sigma22 =
     (if isnan sigma11 \<or> isnan sigma12 \<or> isnan sigma22 then
        Inr ((False, NaN), NaN, NaN, NaN)
      else
        let det = sigma11 * sigma22 - sigma12 * sigma12 in
        if isnan det \<or> det < FLT_EPSILON then
          let q2 = Quadrupole_of_Axes (regularized_axes sigma11 sigma12 sigma22);
              mat = Quadrupole_inverse q2
          in Inr ((True, getDeterminant q2), mat)
        else if sigma11 * sigma22 \<ge> sigma12 * sigma12 - FLT_EPSILON then
          Inr ((True, det), sigma22 / det, - sigma12 / det, sigma11 / det)
        else Inl AssertionFailed)"

definition getInterp :: "fp \<Rightarrow> fp \<Rightarrow> fp \<Rightarrow> bool" where
  "getInterp sigma11 sigma22 det =
     (let xinterp = Fin (1/4)
      in sigma11 < xinterp \<or> sigma22 < xinterp \<or> det < xinterp * xinterp)"

subsection \<open>set_amom_bbox\<close>

definition set_amom_bbox ::
  "int \<Rightarrow> int \<Rightarrow> fp \<Rightarrow> fp \<Rightarrow> fp \<Rightarrow> fp \<Rightarrow> fp \<Rightarrow> fp \<Rightarrow> error + BoxI" where
  "set_amom_bbox width height xcen ycen sigma11_w sigma12_w sigma22_w maxRad =
     (let rad = Fin 4 * fsqrt (if sigma11_w > sigma22_w then sigma11_w else sigma22_w);
          rad = (if rad > maxRad then maxRad else rad)
      in bindE (static_cast_int (xcen - rad - Fin (1/2))) (\<lambda>ix0.
         let ix0 = (if ix0 < 0 then 0 else ix0) in
         bindE (static_cast_int (ycen - rad - Fin (1/2))) (\<lambda>iy0.
         let iy0 = (if iy0 < 0 then 0 else iy0) in
         bindE (static_cast_int (xcen + rad + Fin (1/2))) (\<lambda>ix1.
         let ix1 = (if ix1 \<ge> width then width - 1 else ix1) in
         bindE (static_cast_int (ycen + rad + Fin (1/2))) (\<lambda>iy1.
         let iy1 = (if iy1 \<ge> height then height - 1 else iy1) in
         Inr (BoxI_corners (ix0, iy0) (ix1, iy1)))))))"

subsection \<open>calcmom\<close>

text \<open>
  An image has a width, a height and a pixel at every (column, row); a MaskedImage also has
  a variance plane, and \<^verbatim>\<open>ImageAdaptor::getVariance\<close> of a plain Image is NaN.
\<close>

record image =
  getWidth :: int
  getHeight :: int
  pixel :: "int \<Rightarrow> int \<Rightarrow> fp"
  getVariance :: "int \<Rightarrow> int \<Rightarrow> fp"

text \<open>
  The seven sums. The record is used for the local accumulators
  \<^verbatim>\<open>sum, sumx, sumy, sumxx, sumxy, sumyy, sums4\<close> and for what the out-parameters
  \<^verbatim>\<open>psum, ..., psums4\<close> point to.
\<close>

record moments =
  psum :: fp
  psumx :: fp
  psumy :: fp
  psumxx :: fp
  psumxy :: fp
  psumyy :: fp
  psums4 :: fp

definition zero_moments :: moments where
  "zero_moments = \<lparr> psum = Fin 0, psumx = Fin 0, psumy = Fin 0, psumxx = Fin 0,
     psumxy = Fin 0, psumyy = Fin 0, psums4 = Fin 0 \<rparr>"

text \<open>
  The sub-pixel loops \<^verbatim>\<open>for (Y = yl; Y <= yh; Y += 0.25)\<close> run on \<^verbatim>\<open>float\<close>
  variables, and the number of samples depends on how the sums are rounded. A value
  assigned to a \<^verbatim>\<open>float\<close> is rounded to the nearest number with a significand of 24
  bits (IEEE 754 binary32, exponent at least -126), a tie going to the even significand:
  \<open>float_ulp x\<close> is the spacing of these numbers at \<open>x\<close>, that is 2 to the power
  \<open>e - 23\<close> for \<open>e\<close> the binary exponent of \<open>x\<close>, written over 2 to the power 149. The
  \<^verbatim>\<open>double\<close> sum that is rounded is taken as exact, and overflow is not modelled.
\<close>

definition round_even :: "real \<Rightarrow> int" where
  "round_even x = (let f = \<lfloor>x\<rfloor>; r = x - of_int f
                   in if r < 1/2 then f else if 1/2 < r then f + 1
                      else if even f then f else f + 1)"

definition float_ulp :: "real \<Rightarrow> real" where
  "float_ulp x = 2 ^ nat (max (- 126) \<lfloor>log 2 \<bar>x\<bar>\<rfloor> + 126) / 2 ^ 149"

definition float_round :: "real \<Rightarrow> real" where
  "float_round x = (if x = 0 then 0 else of_int (round_even (x / float_ulp x)) * float_ulp x)"

definition to_float :: "fp \<Rightarrow> fp" where
  "to_float a = lift1 float_round a"

text \<open>Every rounded value is a multiple of 2 to the power -149.\<close>

lemma float_round_grid: "\<exists>k::int. float_round x * 2 ^ 149 = of_int k"
proof (cases "x = 0")
  case True
  thus ?thesis by (simp add: float_round_def)
next
  case False
  define n where "n = nat (max (- 126) \<lfloor>log 2 \<bar>x\<bar>\<rfloor> + 126)"
  have "float_round x * 2 ^ 149 = of_int (round_even (x / float_ulp x) * 2 ^ n)"
    using False by (simp add: float_round_def float_ulp_def n_def)
  thus ?thesis by blast
qed

lemma float_round_step:
  assumes "v < float_round w"
  shows "\<lfloor>v * 2 ^ 149\<rfloor> < \<lfloor>float_round w * 2 ^ 149\<rfloor>"
proof -
  obtain k :: int where k: "float_round w * 2 ^ 149 = of_int k"
    using float_round_grid by blast
  have "v * 2 ^ 149 < float_round w * 2 ^ 149" using assms by simp
  hence "v * 2 ^ 149 < of_int k" using k by simp
  hence "\<lfloor>v * 2 ^ 149\<rfloor> < k" by (simp add: floor_less_iff)
  thus ?thesis using k by simp
qed

text \<open>
  The values the loop variable takes in the body of \<^verbatim>\<open>for (Y = yl; Y <= yh; Y += 0.25)\<close>.
  Where \<^verbatim>\<open>Y + 0.25\<close> rounds back to \<^verbatim>\<open>Y\<close> the loop of the source does not end; the
  list stops at that value, so the model describes the runs in which the variable
  advances (it does whenever its magnitude is at most 2 to the power 21, see
  \<open>float_round_advances\<close> below).
\<close>

function float_steps :: "real \<Rightarrow> real \<Rightarrow> real list" where
  "float_steps v hi =
     (if v \<le> hi then
        v # (if v < float_round (v + 1/4) then float_steps (float_round (v + 1/4)) hi else [])
      else [])"
  by pat_completeness auto
termination
proof (relation "measure (\<lambda>(v, hi). nat (\<lceil>hi * 2 ^ 149\<rceil> - \<lfloor>v * 2 ^ 149\<rfloor> + 1))", goal_cases)
  case 1
  show ?case by simp
next
  case (2 v hi)
  have a: "\<lfloor>v * 2 ^ 149\<rfloor> < \<lfloor>float_round (v + 1/4) * 2 ^ 149\<rfloor>"
    using 2 by (intro float_round_step) simp
  have "v * 2 ^ 149 \<le> hi * 2 ^ 149" using 2 by simp
  hence b: "\<lfloor>v * 2 ^ 149\<rfloor> \<le> \<lceil>hi * 2 ^ 149\<rceil>"
    by (meson floor_le_ceiling floor_mono order_trans)
  show ?case using a b by simp
qed

text \<open>A comparison with NaN is false: the body of such a loop is not executed.\<close>

fun steps :: "fp \<Rightarrow> fp \<Rightarrow> fp list" where
  "steps (Fin v) (Fin hi) = map Fin (float_steps v hi)"
| "steps NaN hi = []"
| "steps (Fin v) NaN = []"

text \<open>The exponent at a corner of the cell: \<^verbatim>\<open>X*X*w11 + Y*Y*w22 + 2.0*X*Y*w12\<close>.\<close>

definition corner_expon :: "fp \<Rightarrow> fp \<Rightarrow> fp \<Rightarrow> fp \<Rightarrow> fp \<Rightarrow> fp" where
  "corner_expon X Y w11 w12 w22 = X * X * w11 + Y * Y * w22 + Fin 2 * X * Y * w12"

text \<open>The body of the innermost loop of the interpolated path.\<close>

definition interp_sample ::
  "bool \<Rightarrow> fp \<Rightarrow> fp \<Rightarrow> fp \<Rightarrow> fp \<Rightarrow> fp \<Rightarrow> fp \<Rightarrow> fp \<Rightarrow> fp \<Rightarrow> moments \<Rightarrow> moments" where
  "interp_sample fluxOnly xcen ycen w11 w12 w22 tmod Y X acc =
     (let interpY2 = Y * Y;
          interpX2 = X * X;
          interpXy = X * Y;
          expon = interpX2 * w11 + Fin 2 * interpXy * w12 + interpY2 * w22;
          weight = fexp (Fin (- (1/2)) * expon);
          ymod = tmod * weight;
          acc = acc \<lparr> psum := psum acc + ymod \<rparr>
      in if \<not> fluxOnly then
           acc \<lparr> psumx := psumx acc + ymod * (X + xcen),
                 psumy := psumy acc + ymod * (Y + ycen),
                 psumxx := psumxx acc + interpX2 * ymod,
                 psumxy := psumxy acc + interpXy * ymod,
                 psumyy := psumyy acc + interpY2 * ymod,
                 psums4 := psums4 acc + expon * expon * ymod \<rparr>
         else acc)"

definition interp_cell ::
  "bool \<Rightarrow> fp \<Rightarrow> fp \<Rightarrow> fp \<Rightarrow> fp \<Rightarrow> fp \<Rightarrow> fp \<Rightarrow> fp list \<Rightarrow> fp list \<Rightarrow> moments \<Rightarrow> moments" where
  "interp_cell fluxOnly xcen ycen w11 w12 w22 tmod Ys Xs acc =
     fold (\<lambda>Y. fold (interp_sample fluxOnly xcen ycen w11 w12 w22 tmod Y) Xs) Ys acc"

text \<open>
  The body of the loop over the columns \<^verbatim>\<open>j\<close> of row \<^verbatim>\<open>i\<close>. The bounds
  \<^verbatim>\<open>xl, xh, yl, yh\<close> of the sub-pixel loops are the \<^verbatim>\<open>float\<close> values the source assigns:
  \<^verbatim>\<open>x\<close> and \<^verbatim>\<open>y\<close> rounded, the offset added, and the sum rounded.
\<close>

definition calcmom_pixel ::
  "bool \<Rightarrow> image \<Rightarrow> fp \<Rightarrow> fp \<Rightarrow> fp \<Rightarrow> bool \<Rightarrow> fp \<Rightarrow> fp \<Rightarrow> fp \<Rightarrow> int \<Rightarrow> int \<Rightarrow> moments \<Rightarrow> moments" where
  "calcmom_pixel fluxOnly img xcen ycen bkgd interpflag w11 w12 w22 i j acc =
     (let y = Fin (of_int i) - ycen;
          y2 = y * y;
          yl = to_float (to_float y - Fin (375/1000));
          yh = to_float (to_float y + Fin (375/1000));
          x = Fin (of_int j) - xcen
      in if interpflag then
           let xl = to_float (to_float x - Fin (375/1000));
               xh = to_float (to_float x + Fin (375/1000));
               expon = corner_expon xl yl w11 w12 w22;
               tmp = corner_expon xh yh w11 w12 w22;
               expon = (if expon > tmp then expon else tmp);
               tmp = corner_expon xl yh w11 w12 w22;
               expon = (if expon > tmp then expon else tmp);
               tmp = corner_expon xh yl w11 w12 w22;
               expon = (if expon > tmp then expon else tmp)
           in if expon \<le> Fin 9 then
                let tmod = pixel img j i - bkgd
                in interp_cell fluxOnly xcen ycen w11 w12 w22 tmod (steps yl yh) (steps xl xh) acc
              else acc
         else
           let x2 = x * x;
               xy = x * y;
               expon = x2 * w11 + Fin 2 * xy * w12 + y2 * w22
           in if expon \<le> Fin 14 then
                let weight = fexp (Fin (- (1/2)) * expon);
                    tmod = pixel img j i - bkgd;
                    ymod = tmod * weight;
                    acc = acc \<lparr> psum := psum acc + ymod \<rparr>
                in if \<not> fluxOnly then
                     acc \<lparr> psumx := psumx acc + ymod * Fin (of_int j),
                           psumy := psumy acc + ymod * Fin (of_int i),
                           psumxx := psumxx acc + x2 * ymod,
                           psumxy := psumxy acc + xy * ymod,
                           psumyy := psumyy acc + y2 * ymod,
                           psums4 := psums4 acc + expon * expon * ymod \<rparr>
                   else acc
              else acc)"

text \<open>The two nested loops over the box, from zeroed accumulators.\<close>

definition calcmom_sums ::
  "bool \<Rightarrow> image \<Rightarrow> fp \<Rightarrow> fp \<Rightarrow> BoxI \<Rightarrow> fp \<Rightarrow> bool \<Rightarrow> fp \<Rightarrow> fp \<Rightarrow> fp \<Rightarrow> moments" where
  "calcmom_sums fluxOnly img xcen ycen bbox bkgd interpflag w11 w12 w22 =
     fold (\<lambda>i. fold (calcmom_pixel fluxOnly img xcen ycen bkgd interpflag w11 w12 w22 i)
                     [getMinX bbox .. getMaxX bbox])
          [getMinY bbox .. getMaxY bbox] zero_moments"

text \<open>
  What the function writes through its out-parameters before it returns: \<^verbatim>\<open>*psum\<close>
  always, the others unless \<^verbatim>\<open>fluxOnly\<close>, \<^verbatim>\<open>*psums4\<close> unless the pointer is NULL
  (\<open>s4\<close> is false).
\<close>

definition write_sums :: "bool \<Rightarrow> bool \<Rightarrow> moments \<Rightarrow> moments \<Rightarrow> moments" where
  "write_sums fluxOnly s4 acc out =
     (let out = out \<lparr> psum := psum acc \<rparr>
      in if \<not> fluxOnly then
           let out = out \<lparr> psumx := psumx acc, psumy := psumy acc, psumxx := psumxx acc,
                            psumxy := psumxy acc, psumyy := psumyy acc \<rparr>
           in if s4 then out \<lparr> psums4 := psums4 acc \<rparr> else out
         else out)"

text \<open>
  \<^verbatim>\<open>calcmom<fluxOnly>\<close>. The result is the returned \<^verbatim>\<open>int\<close> and the contents of the
  out-parameters, which an early return leaves as they were (\<open>out\<close>).
\<close>

definition calcmom ::
  "bool \<Rightarrow> image \<Rightarrow> fp \<Rightarrow> fp \<Rightarrow> BoxI \<Rightarrow> fp \<Rightarrow> bool \<Rightarrow> fp \<Rightarrow> fp \<Rightarrow> fp \<Rightarrow> bool \<Rightarrow> moments
     \<Rightarrow> error + (int \<times> moments)" where
  "calcmom fluxOnly img xcen ycen bbox bkgd interpflag w11 w12 w22 s4 out =
     (if \<not> (w11 \<ge> Fin 0) then Inl AssertionFailed
      else if \<bar>w11\<bar> > Fin 1000000 \<or> \<bar>w12\<bar> > Fin 1000000 \<or> \<bar>w22\<bar> > Fin 1000000 then
        Inr (- 1, out)
      else
        let ix0 = getMinX bbox;
            ix1 = getMaxX bbox;
            iy0 = getMinY bbox;
            iy1 = getMaxY bbox
        in if ix0 < 0 \<or> ix1 \<ge> getWidth img \<or> iy0 < 0 \<or> iy1 \<ge> getHeight img then
             Inr (- 1, out)
           else
             let acc = calcmom_sums fluxOnly img xcen ycen bbox bkgd interpflag w11 w12 w22;
                 out = write_sums fluxOnly s4 acc out
             in Inr (if fluxOnly \<or> (psum acc > Fin 0 \<and> psumxx acc > Fin 0 \<and> psumyy acc > Fin 0)
                     then 0 else - 1, out))"

subsection \<open>The shape record and calc_fisher\<close>

text \<open>
  \<^verbatim>\<open>detail::SdssShapeImpl\<close>, with the fields this file reads and writes through its
  getters and setters. The flag word is a set of flags: \<^verbatim>\<open>flags | F\<close> inserts,
  \<^verbatim>\<open>flags & ~F\<close> removes, \<^verbatim>\<open>flags & F\<close> tests membership.
  Eigen's inverse of a 4x4 matrix is not computed: the covariance field records which
  matrix was inverted.
\<close>

datatype Flags = SHAPE_MAXITER | SHAPE_UNWEIGHTED | SHAPE_UNWEIGHTED_BAD | SHAPE_SHIFT

type_synonym Matrix4 = "nat \<times> nat \<Rightarrow> fp"

datatype Covar = Covar_untouched | Inverse_of Matrix4

record SdssShapeImpl =
  getFlags :: "Flags set"
  getX :: fp
  getY :: fp
  getI0 :: fp
  getIxx :: fp
  getIxy :: fp
  getIyy :: fp
  getIxy4 :: fp
  getCovar :: Covar

text \<open>\<^verbatim>\<open>Matrix4 fisher;\<close> is not initialised; every entry is assigned before the return.\<close>

definition Matrix4_uninitialised :: Matrix4 where
  "Matrix4_uninitialised = (\<lambda>ij. NaN)"

definition calc_fisher :: "SdssShapeImpl \<Rightarrow> fp \<Rightarrow> error + Matrix4" where
  "calc_fisher shape bkgd_var =
     (let A = getI0 shape;
          sigma11W = getIxx shape;
          sigma12W = getIxy shape;
          sigma22W = getIyy shape;
          D = sigma11W * sigma22W - sigma12W * sigma12W
      in if D \<le> DBL_EPSILON then Inl DomainErrorException
         else if bkgd_var \<le> Fin 0 then Inl DomainErrorException
         else
           let F = Fin pi * fsqrt D / bkgd_var;
               fisher = Matrix4_uninitialised;
               fac = F * A / (Fin 4 * D);
               fisher = fisher ((0, 0) := F);
               fisher = fisher ((0, 1) := fac * sigma22W);
               fisher = fisher ((1, 0) := fisher (0, 1));
               fisher = fisher ((0, 2) := fac * sigma11W);
               fisher = fisher ((2, 0) := fisher (0, 2));
               fisher = fisher ((0, 3) := - fac * Fin 2 * sigma12W);
               fisher = fisher ((3, 0) := fisher (0, 3));
               fac = Fin 3 * F * A * A / (Fin 16 * D * D);
               fisher = fisher ((1, 1) := fac * sigma22W * sigma22W);
               fisher = fisher ((2, 2) := fac * sigma11W * sigma11W);
               fisher = fisher ((3, 3) := fac * Fin 4 * (sigma12W * sigma12W + D / Fin 3));
               fisher = fisher ((1, 2) := fisher (3, 3) / Fin 4);
               fisher = fisher ((2, 1) := fisher (1, 2));
               fisher = fisher ((1, 3) := fac * (- Fin 2 * sigma22W * sigma12W));
               fisher = fisher ((3, 1) := fisher (1, 3));
               fisher = fisher ((2, 3) := fac * (- Fin 2 * sigma11W * sigma12W));
               fisher = fisher ((3, 2) := fisher (2, 3))
           in Inr fisher)"

subsection \<open>getAdaptiveMoments\<close>

definition MAXIT :: int where
  "MAXIT = 100"

definition TOL1 :: fp where
  "TOL1 = Fin (1 / 100000)"

definition TOL2 :: fp where
  "TOL2 = Fin (1 / 10000)"

text \<open>
  The local variables of the function that the loop reads and writes (\<open>v_sums\<close> holds
  \<^verbatim>\<open>sum, sumx, sumy, sumxx, sumxy, sumyy, sums4\<close>), and the shape behind the pointer.
  \<open>rounds\<close> is not a variable of the code: it counts the executions of the loop body.
\<close>

record amom =
  v_sigma11W :: fp
  v_sigma12W :: fp
  v_sigma22W :: fp
  v_w11 :: fp
  v_w12 :: fp
  v_w22 :: fp
  v_e1_old :: fp
  v_e2_old :: fp
  v_sigma11_ow_old :: fp
  v_interpflag :: bool
  v_bbox :: BoxI
  v_iter :: int
  v_sums :: moments
  v_ampW :: fp
  v_shape :: SdssShapeImpl
  rounds :: nat

text \<open>How a pass through the loop body ends: at its end, at a \<^verbatim>\<open>break\<close>, or by an error.\<close>

datatype ctl = Continue | Break | Abort error

definition set_flag :: "Flags \<Rightarrow> amom \<Rightarrow> amom" where
  "set_flag F st = st \<lparr> v_shape := (v_shape st) \<lparr> getFlags := insert F (getFlags (v_shape st)) \<rparr> \<rparr>"

text \<open>The end of the loop body: the next weighting function from the weighted moments.\<close>

definition amom_new_weights :: "fp \<Rightarrow> fp \<Rightarrow> fp \<Rightarrow> amom \<Rightarrow> ctl \<times> amom" where
  "amom_new_weights sigma11_ow sigma12_ow sigma22_ow st =
     (case getWeights sigma11_ow sigma12_ow sigma22_ow of
        Inl e \<Rightarrow> (Abort e, st)
      | Inr weights \<Rightarrow>
          if \<not> fst (fst weights) then (Break, set_flag SHAPE_UNWEIGHTED st)
          else
            let ow11 = fst (snd weights);
                ow12 = fst (snd (snd weights));
                ow22 = snd (snd (snd weights));
                n11 = ow11 - v_w11 st;
                n12 = ow12 - v_w12 st;
                n22 = ow22 - v_w22 st
            in (case getWeights n11 n12 n22 of
                  Inl e \<Rightarrow> (Abort e, st)
                | Inr weights \<Rightarrow>
                    if \<not> fst (fst weights) then (Break, set_flag SHAPE_UNWEIGHTED st)
                    else
                      let st = st \<lparr> v_sigma11W := fst (snd weights),
                                     v_sigma12W := fst (snd (snd weights)),
                                     v_sigma22W := snd (snd (snd weights)) \<rparr>
                      in if v_sigma11W st \<le> Fin 0 \<or> v_sigma22W st \<le> Fin 0 then
                           (Break, set_flag SHAPE_UNWEIGHTED st)
                         else (Continue, st)))"

text \<open>The middle of the loop body: the moments, the centroid and the convergence test.\<close>

definition amom_moments ::
  "image \<Rightarrow> fp \<Rightarrow> fp \<Rightarrow> fp \<Rightarrow> fp \<Rightarrow> fp \<Rightarrow> amom \<Rightarrow> ctl \<times> amom" where
  "amom_moments img bkgd xcen ycen shiftmax detW st =
     (case calcmom False img xcen ycen (v_bbox st) bkgd (v_interpflag st)
             (v_w11 st) (v_w12 st) (v_w22 st) True (v_sums st) of
        Inl e \<Rightarrow> (Abort e, st)
      | Inr (rc, out) \<Rightarrow>
          let st = st \<lparr> v_sums := out \<rparr> in
          if rc < 0 then (Break, set_flag SHAPE_UNWEIGHTED st)
          else
            let st = st \<lparr> v_ampW := psum out / (Fin pi * fsqrt detW) \<rparr>;
                st = st \<lparr> v_shape := (v_shape st) \<lparr> getX := psumx out / psum out \<rparr> \<rparr>;
                st = st \<lparr> v_shape := (v_shape st) \<lparr> getY := psumy out / psum out \<rparr> \<rparr>;
                st = (if \<bar>getX (v_shape st) - xcen\<bar> > shiftmax \<or> \<bar>getY (v_shape st) - ycen\<bar> > shiftmax
                      then set_flag SHAPE_SHIFT st else st);
                sigma11_ow = psumxx out / psum out;
                sigma22_ow = psumyy out / psum out;
                sigma12_ow = psumxy out / psum out
            in if sigma11_ow \<le> Fin 0 \<or> sigma22_ow \<le> Fin 0 then
                 (Break, set_flag SHAPE_UNWEIGHTED st)
               else
                 let d = sigma11_ow + sigma22_ow;
                     e1 = (sigma11_ow - sigma22_ow) / d;
                     e2 = Fin 2 * sigma12_ow / d
                 in if v_iter st > 0 \<and> \<bar>e1 - v_e1_old st\<bar> < TOL1 \<and> \<bar>e2 - v_e2_old st\<bar> < TOL1 \<and>
                       \<bar>sigma11_ow / v_sigma11_ow_old st - Fin 1\<bar> < TOL2 then
                      (Break, st)
                    else
                      let st = st \<lparr> v_e1_old := e1, v_e2_old := e2, v_sigma11_ow_old := sigma11_ow \<rparr>
                      in amom_new_weights sigma11_ow sigma12_ow sigma22_ow st)"

text \<open>
  The block that installs the new weights and latches the interpolation flag. When the
  flag is newly set after the first round, the old weights are kept and \<^verbatim>\<open>iter\<close> is
  decremented.
\<close>

definition amom_latch :: "(bool \<times> fp) \<times> fp \<times> fp \<times> fp \<Rightarrow> amom \<Rightarrow> amom" where
  "amom_latch weights st =
     (let detW = snd (fst weights);
          ow11 = v_w11 st;
          ow12 = v_w12 st;
          ow22 = v_w22 st;
          st = st \<lparr> v_w11 := fst (snd weights),
                     v_w12 := fst (snd (snd weights)),
                     v_w22 := snd (snd (snd weights)) \<rparr>
      in if getInterp (v_sigma11W st) (v_sigma22W st) detW then
           if \<not> v_interpflag st then
             let st = st \<lparr> v_interpflag := True \<rparr>
             in if v_iter st > 0 then
                  st \<lparr> v_sigma11_ow_old := Fin 1000000,
                       v_w11 := ow11, v_w12 := ow12, v_w22 := ow22,
                       v_iter := v_iter st - 1 \<rparr>
                else st
           else st
         else st)"

text \<open>One execution of the loop body.\<close>

definition amom_round :: "image \<Rightarrow> fp \<Rightarrow> fp \<Rightarrow> fp \<Rightarrow> fp \<Rightarrow> amom \<Rightarrow> ctl \<times> amom" where
  "amom_round img bkgd xcen ycen shiftmax st0 =
     (let st = st0 \<lparr> rounds := Suc (rounds st0) \<rparr>
      in case set_amom_bbox (getWidth img) (getHeight img) xcen ycen
                (v_sigma11W st) (v_sigma12W st) (v_sigma22W st) (Fin 1000) of
           Inl e \<Rightarrow> (Abort e, st)
         | Inr b \<Rightarrow>
             let st = st \<lparr> v_bbox := b \<rparr>
             in (case getWeights (v_sigma11W st) (v_sigma12W st) (v_sigma22W st) of
                   Inl e \<Rightarrow> (Abort e, st)
                 | Inr weights \<Rightarrow>
                     if \<not> fst (fst weights) then (Break, set_flag SHAPE_UNWEIGHTED st)
                     else if \<not> (v_sigma11W st * v_sigma22W st
                                  \<ge> v_sigma12W st * v_sigma12W st - FLT_EPSILON) then
                       (Abort AssertionFailed, st)
                     else
                       amom_moments img bkgd xcen ycen shiftmax (snd (fst weights))
                         (amom_latch weights st)))"

text \<open>
  The loop \<^verbatim>\<open>for (; iter < MAXIT; iter++)\<close>. A round leaves \<^verbatim>\<open>iter\<close> as it is, or
  decrements it while it sets the interpolation flag, which is never reset: that is what
  makes the loop terminate.
\<close>

lemma set_flag_fields [simp]:
  "v_iter (set_flag F st) = v_iter st"
  "v_interpflag (set_flag F st) = v_interpflag st"
  "rounds (set_flag F st) = rounds st"
  by (simp_all add: set_flag_def)

lemma amom_new_weights_keeps:
  "amom_new_weights a b c st = (k, st') \<Longrightarrow>
     v_iter st' = v_iter st \<and> v_interpflag st' = v_interpflag st \<and> rounds st' = rounds st"
  by (auto simp: amom_new_weights_def Let_def split: sum.splits if_splits)

lemma amom_moments_keeps:
  "amom_moments img bkgd xcen ycen shiftmax detW st = (k, st') \<Longrightarrow>
     v_iter st' = v_iter st \<and> v_interpflag st' = v_interpflag st \<and> rounds st' = rounds st"
  unfolding amom_moments_def Let_def
  by (auto split: sum.splits if_splits prod.splits dest!: amom_new_weights_keeps)

lemma amom_latch_iter:
  "rounds (amom_latch w st) = rounds st \<and>
   ((v_iter (amom_latch w st) = v_iter st \<and> (v_interpflag st \<longrightarrow> v_interpflag (amom_latch w st)))
    \<or> (v_iter (amom_latch w st) = v_iter st - 1 \<and> 0 < v_iter st \<and> \<not> v_interpflag st \<and> v_interpflag (amom_latch w st)))"
  by (simp add: amom_latch_def Let_def)

lemma amom_round_iter:
  assumes "amom_round img bkgd xcen ycen shiftmax st = (k, st')"
  shows "rounds st' = Suc (rounds st) \<and>
   ((v_iter st' = v_iter st \<and> (v_interpflag st \<longrightarrow> v_interpflag st'))
    \<or> (v_iter st' = v_iter st - 1 \<and> 0 < v_iter st \<and> \<not> v_interpflag st \<and> v_interpflag st'))"
proof -
  define st1 where "st1 = st \<lparr> rounds := Suc (rounds st) \<rparr>"
  have "(v_iter st' = v_iter st \<and> v_interpflag st' = v_interpflag st \<and> rounds st' = Suc (rounds st))
      \<or> (\<exists>b w d. amom_moments img bkgd xcen ycen shiftmax d (amom_latch w (st1 \<lparr> v_bbox := b \<rparr>)) = (k, st'))"
    using assms unfolding amom_round_def Let_def st1_def
    by (auto split: sum.splits if_splits)
  then show ?thesis
  proof
    assume "v_iter st' = v_iter st \<and> v_interpflag st' = v_interpflag st \<and> rounds st' = Suc (rounds st)"
    then show ?thesis by simp
  next
    assume "\<exists>b w d. amom_moments img bkgd xcen ycen shiftmax d (amom_latch w (st1 \<lparr> v_bbox := b \<rparr>)) = (k, st')"
    then obtain b w d where
      m: "amom_moments img bkgd xcen ycen shiftmax d (amom_latch w (st1 \<lparr> v_bbox := b \<rparr>)) = (k, st')"
      by blast
    from amom_moments_keeps [OF m] amom_latch_iter [of w "st1 \<lparr> v_bbox := b \<rparr>"]
    show ?thesis by (auto simp: st1_def)
  qed
qed

text \<open>
  The result is the state in which the loop is left, and the error if a round ended by one.
\<close>

function amom_loop :: "image \<Rightarrow> fp \<Rightarrow> fp \<Rightarrow> fp \<Rightarrow> fp \<Rightarrow> amom \<Rightarrow> error option \<times> amom" where
  "amom_loop img bkgd xcen ycen shiftmax st =
     (if v_iter st < MAXIT then
        (case amom_round img bkgd xcen ycen shiftmax st of
           (Continue, st') \<Rightarrow>
             amom_loop img bkgd xcen ycen shiftmax (st' \<lparr> v_iter := v_iter st' + 1 \<rparr>)
         | (Break, st') \<Rightarrow> (None, st')
         | (Abort e, st') \<Rightarrow> (Some e, st'))
      else (None, st))"
  by pat_completeness auto
termination
proof (relation "measure (\<lambda>(img, bkgd, xcen, ycen, shiftmax, st).
          nat (2 * (MAXIT - v_iter st)) + (if v_interpflag st then 0 else 1))", goal_cases)
  case 1
  show ?case by simp
next
  case (2 img bkgd xcen ycen shiftmax st x1 x2)
  from 2(2) have "amom_round img bkgd xcen ycen shiftmax st = (x1, x2)" by simp
  from amom_round_iter [OF this] 2(1) show ?case
    by (auto split: if_splits)
qed

text \<open>
  Modelled from the spec: \<^verbatim>\<open>lsst::afw::image::positionToIndex\<close> is a library function
  that is not under src/; it gives the index of the pixel that holds a position, the
  integer nearest to it.
\<close>

fun positionToIndex :: "fp \<Rightarrow> error + int" where
  "positionToIndex NaN = Inl UndefinedCast"
| "positionToIndex (Fin x) =
     (if in_int_range \<lfloor>x + 1/2\<rfloor> then Inr \<lfloor>x + 1/2\<rfloor> else Inl UndefinedCast)"

text \<open>The end of the function, from \<^verbatim>\<open>shape->setI0(ampW)\<close> on.\<close>

definition amom_report :: "image \<Rightarrow> fp \<Rightarrow> fp \<Rightarrow> amom \<Rightarrow> error + (bool \<times> SdssShapeImpl)" where
  "amom_report mimage xcen ycen st =
     (let shape = (v_shape st) \<lparr> getI0 := v_ampW st,
                                  getIxx := v_sigma11W st,
                                  getIxy := v_sigma12W st,
                                  getIyy := v_sigma22W st,
                                  getIxy4 := psums4 (v_sums st) / psum (v_sums st) \<rparr>
      in if getIxx shape + getIyy shape \<noteq> Fin 0 then
           bindE (positionToIndex xcen) (\<lambda>ix.
           bindE (positionToIndex ycen) (\<lambda>iy.
             if ix \<ge> 0 \<and> ix < getWidth mimage \<and> iy \<ge> 0 \<and> iy < getHeight mimage then
               let bkgd_var = getVariance mimage ix iy
               in if bkgd_var > Fin 0 then
                    if SHAPE_UNWEIGHTED \<notin> getFlags shape then
                      bindE (calc_fisher shape bkgd_var) (\<lambda>fisher.
                        Inr (True, shape \<lparr> getCovar := Inverse_of fisher \<rparr>))
                    else Inr (True, shape)
                  else Inr (True, shape)
             else Inr (True, shape)))
         else Inr (True, shape))"

text \<open>The block \<^verbatim>\<open>if (shape->getFlags() & Flags::SHAPE_UNWEIGHTED)\<close> and what follows it.\<close>

definition amom_unweighted :: "image \<Rightarrow> fp \<Rightarrow> fp \<Rightarrow> fp \<Rightarrow> amom \<Rightarrow> error + (bool \<times> SdssShapeImpl)" where
  "amom_unweighted mimage bkgd xcen ycen st0 =
     (let st = st0 \<lparr> v_w11 := Fin 0, v_w12 := Fin 0, v_w22 := Fin 0 \<rparr>
      in bindE (calcmom False mimage xcen ycen (v_bbox st) bkgd (v_interpflag st)
                  (v_w11 st) (v_w12 st) (v_w22 st) False (v_sums st)) (\<lambda>(rc, out).
           let st = st \<lparr> v_sums := out \<rparr> in
           if rc < 0 \<or> psum out \<le> Fin 0 then
             let shape = (v_shape st)
                   \<lparr> getFlags := insert SHAPE_UNWEIGHTED_BAD (getFlags (v_shape st) - {SHAPE_UNWEIGHTED}) \<rparr>;
                 shape = (if psum out > Fin 0 then
                            shape \<lparr> getIxx := Fin (1/12), getIxy := Fin 0, getIyy := Fin (1/12) \<rparr>
                          else shape)
             in Inr (False, shape)
           else
             amom_report mimage xcen ycen
               (st \<lparr> v_sigma11W := psumxx out / psum out,
                     v_sigma12W := psumxy out / psum out,
                     v_sigma22W := psumyy out / psum out \<rparr>)))"

text \<open>
  The two tests that follow the loop: the iteration cap, and both diagonal sums zero.
\<close>

definition amom_flagged :: "amom \<Rightarrow> amom" where
  "amom_flagged st0 =
     (let st = (if v_iter st0 = MAXIT then set_flag SHAPE_UNWEIGHTED (set_flag SHAPE_MAXITER st0)
                else st0)
      in if psumxx (v_sums st) + psumyy (v_sums st) = Fin 0 then set_flag SHAPE_UNWEIGHTED st
         else st)"

text \<open>Everything after the loop.\<close>

definition amom_finish :: "image \<Rightarrow> fp \<Rightarrow> fp \<Rightarrow> fp \<Rightarrow> amom \<Rightarrow> error + (bool \<times> SdssShapeImpl)" where
  "amom_finish mimage bkgd xcen ycen st0 =
     (let st = amom_flagged st0
      in if SHAPE_UNWEIGHTED \<in> getFlags (v_shape st) then amom_unweighted mimage bkgd xcen ycen st
         else amom_report mimage xcen ycen st)"

text \<open>
  The values of the local variables when the loop is entered. The sums are not
  initialised in the code: \<open>indeterminate\<close> stands for what they hold. The
  default-constructed box is empty.
\<close>

definition amom_init :: "SdssShapeImpl \<Rightarrow> moments \<Rightarrow> amom" where
  "amom_init shape indeterminate =
     \<lparr> v_sigma11W = Fin (3/2), v_sigma12W = Fin 0, v_sigma22W = Fin (3/2),
       v_w11 = Fin (- 1), v_w12 = Fin (- 1), v_w22 = Fin (- 1),
       v_e1_old = Fin 1000000, v_e2_old = Fin 1000000, v_sigma11_ow_old = Fin 1000000,
       v_interpflag = False,
       v_bbox = \<lparr> getMinX = 0, getMinY = 0, getMaxX = - 1, getMaxY = - 1 \<rparr>,
       v_iter = 0,
       v_sums = indeterminate,
       v_ampW = Fin 0,
       v_shape = shape,
       rounds = 0 \<rparr>"

text \<open>
  \<^verbatim>\<open>getAdaptiveMoments\<close>: the returned \<^verbatim>\<open>bool\<close> and the shape as the call leaves it.
\<close>

definition getAdaptiveMoments ::
  "image \<Rightarrow> fp \<Rightarrow> fp \<Rightarrow> fp \<Rightarrow> fp \<Rightarrow> SdssShapeImpl \<Rightarrow> moments \<Rightarrow> error + (bool \<times> SdssShapeImpl)" where
  "getAdaptiveMoments mimage bkgd xcen ycen shiftmax shape indeterminate =
     (if isnan xcen \<or> isnan ycen then
        Inr (False, shape \<lparr> getFlags := insert SHAPE_UNWEIGHTED_BAD (getFlags shape) \<rparr>)
      else
        case amom_loop mimage bkgd xcen ycen shiftmax (amom_init shape indeterminate) of
          (Some e, st) \<Rightarrow> Inl e
        | (None, st) \<Rightarrow> amom_finish mimage bkgd xcen ycen st)"

subsection \<open>getFixedMomentsFlux\<close>

definition getFixedMomentsFlux ::
  "image \<Rightarrow> fp \<Rightarrow> fp \<Rightarrow> fp \<Rightarrow> SdssShapeImpl \<Rightarrow> error + (fp \<times> fp)" where
  "getFixedMomentsFlux img bkgd xcen ycen shape =
     bindE (set_amom_bbox (getWidth img) (getHeight img) xcen ycen
              (getIxx shape) (getIxy shape) (getIyy shape) (Fin 1000)) (\<lambda>bbox.
     bindE (getWeights (getIxx shape) (getIxy shape) (getIyy shape)) (\<lambda>weights.
       if \<not> fst (fst weights) then Inr (NaN, NaN)
       else
         let w11 = fst (snd weights);
             w12 = fst (snd (snd weights));
             w22 = snd (snd (snd weights));
             interp = getInterp (getIxx shape) (getIyy shape) (snd (fst weights));
             sumErr = NaN
         in bindE (calcmom True img xcen ycen bbox bkgd interp w11 w12 w22 False
                     (zero_moments \<lparr> psum := Fin 0 \<rparr>)) (\<lambda>(rc, out).
              Inr (psum out, sumErr))))"

subsection \<open>The specification's box, and data for examples\<close>

text \<open>
  The box in the words of the specification: the corners are the floors of
  centroid - radius - 0.5 and of centroid + radius + 0.5, each clipped into [0, dim - 1].
\<close>

definition clip_index :: "int \<Rightarrow> int \<Rightarrow> int" where
  "clip_index n v = max 0 (min (n - 1) v)"

definition spec_bbox :: "int \<Rightarrow> int \<Rightarrow> real \<Rightarrow> real \<Rightarrow> real \<Rightarrow> BoxI" where
  "spec_bbox width height xcen ycen radius =
     \<lparr> getMinX = clip_index width \<lfloor>xcen - radius - 1/2\<rfloor>,
       getMinY = clip_index height \<lfloor>ycen - radius - 1/2\<rfloor>,
       getMaxX = clip_index width \<lfloor>xcen + radius + 1/2\<rfloor>,
       getMaxY = clip_index height \<lfloor>ycen + radius + 1/2\<rfloor> \<rparr>"


text \<open>A plain image (no variance plane) with the same value in every pixel.\<close>

definition flat_image :: "int \<Rightarrow> int \<Rightarrow> real \<Rightarrow> image" where
  "flat_image w h v = \<lparr> getWidth = w, getHeight = h, pixel = (\<lambda>j i. Fin v), getVariance = (\<lambda>j i. NaN) \<rparr>"

text \<open>
  A shape with the given second moments, and a shape as a caller hands it in, with no
  flag set and no value yet.
\<close>

definition shape_of :: "real \<Rightarrow> real \<Rightarrow> real \<Rightarrow> SdssShapeImpl" where
  "shape_of xx xy yy =
     \<lparr> getFlags = {}, getX = NaN, getY = NaN, getI0 = NaN,
       getIxx = Fin xx, getIxy = Fin xy, getIyy = Fin yy, getIxy4 = NaN,
       getCovar = Covar_untouched \<rparr>"

definition blank_shape :: SdssShapeImpl where
  "blank_shape = \<lparr> getFlags = {}, getX = NaN, getY = NaN, getI0 = NaN,
       getIxx = NaN, getIxy = NaN, getIyy = NaN, getIxy4 = NaN, getCovar = Covar_untouched \<rparr>"


definition fallback_state :: amom where
  "fallback_state =
     (amom_init (blank_shape \<lparr> getFlags := {SHAPE_UNWEIGHTED} \<rparr>) zero_moments)
       \<lparr> v_bbox := \<lparr> getMinX = 0, getMinY = 0, getMaxX = 1, getMaxY = 1 \<rparr> \<rparr>"


text \<open>
  What accumulating the sub-grid of the pixel in column 3 of row 0 adds to zeroed sums,
  for weights (1, 0, 1), centroid (0, 0), pixel value 1 and background 0.
\<close>

definition skipped_cell :: moments where
  "skipped_cell = interp_cell False (Fin 0) (Fin 0) (Fin 1) (Fin 0) (Fin 1)
               (pixel (flat_image 4 1 1) 3 0 - Fin 0)
               (steps (to_float (to_float (Fin 0 - Fin 0) - Fin (375/1000)))
                      (to_float (to_float (Fin 0 - Fin 0) + Fin (375/1000))))
               (steps (to_float (to_float (Fin 3 - Fin 0) - Fin (375/1000)))
                      (to_float (to_float (Fin 3 - Fin 0) + Fin (375/1000))))
               zero_moments"

section \<open>Properties\<close>

subsection \<open>Arithmetic with NaN\<close>

lemma fp_plus [simp]: "Fin a + Fin b = Fin (a + b)" "NaN + y = NaN" "x + NaN = NaN"
  by (simp_all add: plus_fp_def) (cases x, simp_all)

lemma fp_minus [simp]: "Fin a - Fin b = Fin (a - b)" "NaN - y = NaN" "x - NaN = NaN"
  by (simp_all add: minus_fp_def) (cases x, simp_all)

lemma fp_times [simp]: "Fin a * Fin b = Fin (a * b)" "NaN * y = NaN" "x * NaN = NaN"
  by (simp_all add: times_fp_def) (cases x, simp_all)

lemma fp_uminus [simp]: "- Fin a = Fin (- a)" "- NaN = NaN"
  by (simp_all add: uminus_fp_def)

lemma fp_abs [simp]: "\<bar>Fin a\<bar> = Fin \<bar>a\<bar>" "\<bar>NaN\<bar> = NaN"
  by (simp_all add: abs_fp_def)

lemma fp_div [simp]:
  "Fin a / Fin b = (if b = 0 then NaN else Fin (a / b))" "NaN / y = NaN" "x / NaN = NaN"
  by (simp_all add: divide_fp_def) (cases x, simp_all)

lemma fp_less [simp]: "Fin a < Fin b \<longleftrightarrow> a < b" "\<not> NaN < y" "\<not> x < NaN"
  by (simp_all add: less_fp_def) (cases x, simp_all)

lemma fp_le [simp]: "Fin a \<le> Fin b \<longleftrightarrow> a \<le> b" "\<not> NaN \<le> y" "\<not> x \<le> NaN"
  by (simp_all add: less_eq_fp_def) (cases x, simp_all)

lemma fp_fun [simp]:
  "fexp (Fin a) = Fin (exp a)" "fexp NaN = NaN"
  "fcos (Fin a) = Fin (cos a)" "fcos NaN = NaN"
  "fsin (Fin a) = Fin (sin a)" "fsin NaN = NaN"
  "fatan2 (Fin a) (Fin b) = Fin (atan2 a b)" "fatan2 NaN y = NaN" "fatan2 x NaN = NaN"
  by (simp_all add: fexp_def fcos_def fsin_def fatan2_def) (cases x, simp_all)

lemma fp_less_Fin: "Fin a < y \<longleftrightarrow> (\<exists>b. y = Fin b \<and> a < b)"
  by (cases y) simp_all

lemma fp_le_Fin: "Fin a \<le> y \<longleftrightarrow> (\<exists>b. y = Fin b \<and> a \<le> b)"
  by (cases y) simp_all

subsection \<open>getWeights on a well-conditioned covariance\<close>

text \<open>
  C6. For every non-NaN triple (sigma11, sigma12, sigma22) whose determinant
  D = sigma11 * sigma22 - sigma12 * sigma12 is at least the machine epsilon the code tests
  against (that of \<^verbatim>\<open>float\<close>), getWeights reports success, the determinant D and the
  weights (sigma22 / D, - sigma12 / D, sigma11 / D). In particular the assertion before
  the return never fails there.
\<close>

theorem getWeights_nondegenerate:
  assumes "FLT_EPSILON \<le> Fin s11 * Fin s22 - Fin s12 * Fin s12"
  shows "getWeights (Fin s11) (Fin s12) (Fin s22) =
           Inr ((True, Fin (s11 * s22 - s12 * s12)),
                Fin (s22 / (s11 * s22 - s12 * s12)),
                Fin (- s12 / (s11 * s22 - s12 * s12)),
                Fin (s11 / (s11 * s22 - s12 * s12)))"
proof -
  from assms have d: "1 / 2 ^ 23 \<le> s11 * s22 - s12 * s12"
    by (simp add: FLT_EPSILON_def)
  then have pos: "s11 * s22 - s12 * s12 \<noteq> 0" "\<not> s11 * s22 - s12 * s12 < 1 / 2 ^ 23"
    by auto
  from d have "s12 * s12 - 1 / 2 ^ 23 \<le> s11 * s22" by simp
  with pos show ?thesis
    by (simp add: getWeights_def FLT_EPSILON_def Let_def)
qed

theorem getWeights_nondegenerate_witness:
  "FLT_EPSILON \<le> Fin (3/2) * Fin (3/2) - Fin 0 * Fin 0 \<and>
   getWeights (Fin (3/2)) (Fin 0) (Fin (3/2)) = Inr ((True, Fin (9/4)), Fin (2/3), Fin 0, Fin (2/3))"
proof -
  have h: "FLT_EPSILON \<le> Fin (3/2) * Fin (3/2) - Fin 0 * Fin 0"
    by (simp add: FLT_EPSILON_def)
  from getWeights_nondegenerate [OF h] h show ?thesis by simp
qed

subsection \<open>The Fisher matrix is symmetric\<close>

text \<open>
  C9. For every shape whose determinant Ixx * Iyy - Ixy * Ixy exceeds the machine epsilon
  of \<^verbatim>\<open>double\<close> and every background variance above 0, calc_fisher returns a matrix
  (it does not throw), and the matrix is symmetric: entry (i, j) equals entry (j, i) for
  all indices below 4.
\<close>

theorem calc_fisher_symmetric:
  assumes "DBL_EPSILON < getIxx shape * getIyy shape - getIxy shape * getIxy shape"
    and "Fin 0 < bkgd_var"
  shows "\<exists>fisher. calc_fisher shape bkgd_var = Inr fisher \<and>
           (\<forall>i < 4. \<forall>j < 4. fisher (i, j) = fisher (j, i))"
proof -
  from assms(1) obtain d where d: "getIxx shape * getIyy shape - getIxy shape * getIxy shape = Fin d"
    and d1: "1 / 2 ^ 52 < d"
    by (auto simp: DBL_EPSILON_def fp_less_Fin)
  from assms(2) obtain v where v: "bkgd_var = Fin v" and v1: "0 < v"
    by (auto simp: fp_less_Fin)
  have idx: "\<And>i::nat. i < 4 \<longleftrightarrow> i = 0 \<or> i = 1 \<or> i = 2 \<or> i = 3"
    by auto
  from d1 have nle: "\<not> d \<le> 1 / 2 ^ 52" by simp
  show ?thesis
    unfolding calc_fisher_def Let_def d v
    using nle v1 by (simp add: DBL_EPSILON_def idx)
qed

theorem calc_fisher_symmetric_witness:
  "\<exists>fisher. calc_fisher \<lparr> getFlags = {}, getX = Fin 0, getY = Fin 0, getI0 = Fin 1,
        getIxx = Fin 1, getIxy = Fin 0, getIyy = Fin 1, getIxy4 = Fin 0,
        getCovar = Covar_untouched \<rparr> (Fin 1) = Inr fisher \<and>
      (\<forall>i < 4. \<forall>j < 4. fisher (i, j) = fisher (j, i))"
  by (rule calc_fisher_symmetric) (simp_all add: DBL_EPSILON_def)

subsection \<open>The box of set_amom_bbox\<close>

lemma trunc_real_range: "\<bar>v\<bar> < 2 ^ 31 \<Longrightarrow> in_int_range (trunc_real v)"
  unfolding trunc_real_def in_int_range_def
  by (auto simp: floor_less_iff le_floor_iff ceiling_le_iff le_ceiling_iff abs_less_iff)

lemma clamp_low: "(if i < 0 then 0 else i) = max 0 (i::int)"
  by simp

lemma clamp_high: "(if i \<ge> n then n - 1 else i) = min (n - 1) (i::int)"
  by (simp add: min_def)

lemma fsqrt_Fin: "0 \<le> x \<Longrightarrow> fsqrt (Fin x) = Fin (sqrt x)"
  by simp

lemma set_amom_bbox_Fin:
  assumes "0 \<le> max s11 s22" and "r = min (4 * sqrt (max s11 s22)) m"
    and "\<bar>xc\<bar> + \<bar>r\<bar> + 1/2 < 2 ^ 31" and "\<bar>yc\<bar> + \<bar>r\<bar> + 1/2 < 2 ^ 31"
  shows "set_amom_bbox w h (Fin xc) (Fin yc) (Fin s11) s12 (Fin s22) (Fin m) =
     Inr (BoxI_corners
            (max 0 (trunc_real (xc - r - 1/2)), max 0 (trunc_real (yc - r - 1/2)))
            (min (w - 1) (trunc_real (xc + r + 1/2)), min (h - 1) (trunc_real (yc + r + 1/2))))"
proof -
  have rad: "(let rad = Fin 4 * fsqrt (if Fin s11 > Fin s22 then Fin s11 else Fin s22)
              in if rad > Fin m then Fin m else rad) = Fin r"
    using assms(1,2) by (auto simp: Let_def max_def min_def split: if_splits)
  have c: "in_int_range (trunc_real (xc - r - 1/2))" "in_int_range (trunc_real (yc - r - 1/2))"
      "in_int_range (trunc_real (xc + r + 1/2))" "in_int_range (trunc_real (yc + r + 1/2))"
    using assms(3,4) by (auto intro!: trunc_real_range)
  show ?thesis
    unfolding set_amom_bbox_def rad [unfolded Let_def] Let_def
    using c by (simp add: bindE_def clamp_low clamp_high del: max.absorb1 max.absorb2 max.absorb3 max.absorb4 min.absorb1 min.absorb2 min.absorb3 min.absorb4)
qed

lemma lower_corner_clip:
  assumes "1 \<le> n" and "a < of_int n"
  shows "max 0 (trunc_real a) = clip_index n \<lfloor>a\<rfloor>"
proof -
  from assms(2) have "\<lfloor>a\<rfloor> < n" by (simp add: floor_less_iff)
  then have m: "min (n - 1) \<lfloor>a\<rfloor> = \<lfloor>a\<rfloor>" by simp
  show ?thesis
  proof (cases "0 \<le> a")
    case True
    then show ?thesis by (simp add: trunc_real_def clip_index_def m)
  next
    case False
    then have "\<lceil>a\<rceil> \<le> 0" "\<lfloor>a\<rfloor> < 0" by (simp_all add: ceiling_le_iff floor_less_iff)
    with False show ?thesis by (simp add: trunc_real_def clip_index_def m)
  qed
qed

lemma upper_corner_clip:
  assumes "1 \<le> n" and "- 1 < b"
  shows "min (n - 1) (trunc_real b) = clip_index n \<lfloor>b\<rfloor>"
proof (cases "0 \<le> b")
  case True
  then have "0 \<le> \<lfloor>b\<rfloor>" by simp
  with True assms(1) show ?thesis by (simp add: trunc_real_def clip_index_def)
next
  case False
  with assms(2) have "\<lceil>b\<rceil> = 0" "\<lfloor>b\<rfloor> = - 1"
    by (auto simp: ceiling_eq_iff floor_eq_iff)
  with False assms(1) show ?thesis by (simp add: trunc_real_def clip_index_def)
qed

lemma clip_index_mono: "u \<le> v \<Longrightarrow> clip_index n u \<le> clip_index n v"
  by (auto simp: clip_index_def)

text \<open>
  C7, as the code has it. For a finite centroid and weighting covariance with
  max (sigma11, sigma22) at least 0, and radius = min (4 * sqrt (max (sigma11, sigma22)),
  maxRad), set_amom_bbox returns the box spanned by the lower corner
  max (0, trunc (centroid - radius - 0.5)) and the upper corner
  min (dim - 1, trunc (centroid + radius + 0.5)), where the cast truncates towards zero:
  the lower corner is clipped at 0 only, the upper corner at dim - 1 only. When the
  centroid is within reach of the image (centroid - radius - 0.5 < dim and
  centroid + radius + 0.5 > - 1 in each dimension, radius at least 0, dim at least 1)
  this is the box of the specification, with both corners in [0, dim - 1].
\<close>

theorem set_amom_bbox_corners:
  assumes "0 \<le> max s11 s22" and "r = min (4 * sqrt (max s11 s22)) m"
    and "\<bar>xc\<bar> + \<bar>r\<bar> + 1/2 < 2 ^ 31" and "\<bar>yc\<bar> + \<bar>r\<bar> + 1/2 < 2 ^ 31"
  shows "set_amom_bbox w h (Fin xc) (Fin yc) (Fin s11) s12 (Fin s22) (Fin m) =
           Inr (BoxI_corners
                  (max 0 (trunc_real (xc - r - 1/2)), max 0 (trunc_real (yc - r - 1/2)))
                  (min (w - 1) (trunc_real (xc + r + 1/2)), min (h - 1) (trunc_real (yc + r + 1/2))))
         \<and> (0 \<le> r \<and> 1 \<le> w \<and> 1 \<le> h \<and>
              xc - r - 1/2 < of_int w \<and> - 1 < xc + r + 1/2 \<and>
              yc - r - 1/2 < of_int h \<and> - 1 < yc + r + 1/2 \<longrightarrow>
            set_amom_bbox w h (Fin xc) (Fin yc) (Fin s11) s12 (Fin s22) (Fin m) =
              Inr (spec_bbox w h xc yc r))"
proof (intro conjI impI)
  show g: "set_amom_bbox w h (Fin xc) (Fin yc) (Fin s11) s12 (Fin s22) (Fin m) =
           Inr (BoxI_corners
                  (max 0 (trunc_real (xc - r - 1/2)), max 0 (trunc_real (yc - r - 1/2)))
                  (min (w - 1) (trunc_real (xc + r + 1/2)), min (h - 1) (trunc_real (yc + r + 1/2))))"
    using assms by (rule set_amom_bbox_Fin)
  assume a: "0 \<le> r \<and> 1 \<le> w \<and> 1 \<le> h \<and>
              xc - r - 1/2 < of_int w \<and> - 1 < xc + r + 1/2 \<and>
              yc - r - 1/2 < of_int h \<and> - 1 < yc + r + 1/2"
  have x0: "max 0 (trunc_real (xc - r - 1/2)) = clip_index w \<lfloor>xc - r - 1/2\<rfloor>"
    using a by (intro lower_corner_clip) simp_all
  have y0: "max 0 (trunc_real (yc - r - 1/2)) = clip_index h \<lfloor>yc - r - 1/2\<rfloor>"
    using a by (intro lower_corner_clip) simp_all
  have x1: "min (w - 1) (trunc_real (xc + r + 1/2)) = clip_index w \<lfloor>xc + r + 1/2\<rfloor>"
    using a by (intro upper_corner_clip) simp_all
  have y1: "min (h - 1) (trunc_real (yc + r + 1/2)) = clip_index h \<lfloor>yc + r + 1/2\<rfloor>"
    using a by (intro upper_corner_clip) simp_all
  have ox: "clip_index w \<lfloor>xc - r - 1/2\<rfloor> \<le> clip_index w \<lfloor>xc + r + 1/2\<rfloor>"
    using a by (intro clip_index_mono floor_mono) simp
  have oy: "clip_index h \<lfloor>yc - r - 1/2\<rfloor> \<le> clip_index h \<lfloor>yc + r + 1/2\<rfloor>"
    using a by (intro clip_index_mono floor_mono) simp
  show "set_amom_bbox w h (Fin xc) (Fin yc) (Fin s11) s12 (Fin s22) (Fin m) =
              Inr (spec_bbox w h xc yc r)"
    unfolding g x0 y0 x1 y1 using ox oy
    by (simp add: BoxI_corners_def spec_bbox_def)
qed

theorem set_amom_bbox_corners_witness:
  "set_amom_bbox 64 64 (Fin 32) (Fin 32) (Fin 9) (Fin 0) (Fin 9) (Fin 1000) =
     Inr \<lparr> getMinX = 19, getMinY = 19, getMaxX = 44, getMaxY = 44 \<rparr>
   \<and> spec_bbox 64 64 32 32 12 = \<lparr> getMinX = 19, getMinY = 19, getMaxX = 44, getMaxY = 44 \<rparr>"
proof -
  have s: "sqrt 9 = 3"
    using real_sqrt_abs [of 3] by simp
  have r: "(12::real) = min (4 * sqrt (max 9 9)) 1000"
    by (simp add: s)
  have b: "spec_bbox 64 64 32 32 12 = \<lparr> getMinX = 19, getMinY = 19, getMaxX = 44, getMaxY = 44 \<rparr>"
    by (simp add: spec_bbox_def clip_index_def)
  from set_amom_bbox_corners [of 9 9 12 1000 32 32 64 64 "Fin 0", OF _ r] b
  show ?thesis by (simp add: trunc_real_def BoxI_corners_def)
qed

text \<open>
  The claim as stated fails for a centroid beyond the image: on a 10 x 10 image with the
  centroid at x = 20 and radius 4, the lower corner 15 is not clipped to 9, and the box
  reaches column 15, where the specification's box ends at column 9.
\<close>

theorem set_amom_bbox_counterexample:
  "set_amom_bbox 10 10 (Fin 20) (Fin 5) (Fin 1) (Fin 0) (Fin 1) (Fin 1000) =
     Inr \<lparr> getMinX = 9, getMinY = 0, getMaxX = 15, getMaxY = 9 \<rparr>
   \<and> spec_bbox 10 10 20 5 4 = \<lparr> getMinX = 9, getMinY = 0, getMaxX = 9, getMaxY = 9 \<rparr>"
  by (simp add: set_amom_bbox_def bindE_def in_int_range_def trunc_real_def BoxI_corners_def
      spec_bbox_def clip_index_def)

subsection \<open>The interpolated path of calcmom\<close>

lemma flat_image_simps [simp]:
  "getWidth (flat_image w h v) = w" "getHeight (flat_image w h v) = h"
  "pixel (flat_image w h v) j i = Fin v" "getVariance (flat_image w h v) j i = NaN"
  by (simp_all add: flat_image_def)

subsubsection \<open>Rounding to single precision\<close>

lemma to_float_simps [simp]: "to_float (Fin x) = Fin (float_round x)" "to_float NaN = NaN"
  by (simp_all add: to_float_def)

lemma floor_log2:
  fixes x :: real
  assumes "2 ^ 23 \<le> \<bar>x\<bar> * 2 ^ k" "\<bar>x\<bar> * 2 ^ k < 2 ^ 24"
  shows "\<lfloor>log 2 \<bar>x\<bar>\<rfloor> = 23 - int k"
proof -
  have p: "0 < \<bar>x\<bar>" using assms(1)
    by (metis abs_ge_zero less_eq_real_def mult_zero_left not_numeral_le_zero zero_less_power zero_less_numeral not_le)
  have "log 2 (\<bar>x\<bar> * 2 ^ k) = log 2 \<bar>x\<bar> + real k"
    using p by (simp add: log_mult log_nat_power)
  moreover have "23 \<le> log 2 (\<bar>x\<bar> * 2 ^ k)"
    using assms(1) p by (subst le_log_iff) (simp_all add: powr_numeral)
  moreover have "log 2 (\<bar>x\<bar> * 2 ^ k) < 24"
    using assms(2) p by (subst log_less_iff) (simp_all add: powr_numeral)
  ultimately have "real_of_int (23 - int k) \<le> log 2 \<bar>x\<bar>" "log 2 \<bar>x\<bar> < real_of_int (23 - int k) + 1"
    by simp_all
  thus ?thesis by (simp add: floor_eq_iff)
qed

text \<open>
  Rounding a number of binary exponent \<open>23 - k\<close>: the significand \<open>x * 2 ^ k\<close> is rounded to
  an integer.
\<close>

lemma float_round_eval:
  assumes "k \<le> 149" "2 ^ 23 \<le> \<bar>x\<bar> * 2 ^ k" "\<bar>x\<bar> * 2 ^ k < 2 ^ 24"
  shows "float_round x = of_int (round_even (x * 2 ^ k)) / 2 ^ k"
proof -
  have nz: "x \<noteq> 0" using assms(2) by auto
  have e: "\<lfloor>log 2 \<bar>x\<bar>\<rfloor> = 23 - int k" using assms(2,3) by (rule floor_log2)
  have m: "max (- 126) (23 - int k) + 126 = 149 - int k" using assms(1) by simp
  have n: "nat (149 - int k) = 149 - k" by simp
  have "(2::real) ^ (149 - k) * 2 ^ k = 2 ^ 149"
    using assms(1) by (simp add: power_add [symmetric])
  hence u: "float_ulp x = 1 / 2 ^ k"
    unfolding float_ulp_def e m n by (simp add: field_simps)
  show ?thesis using nz by (simp add: float_round_def u)
qed

lemma round_even_int: "round_even (of_int m) = m"
  by (simp add: round_even_def)

lemma float_round_0: "float_round 0 = 0"
  by (simp add: float_round_def)

text \<open>
  As long as the loop variable is at most 2 to the power 21 in magnitude, adding 0.25
  advances it: the rounded sum is within half a spacing, at most 0.125, of the exact one.
\<close>

lemma round_even_near: "\<bar>of_int (round_even t) - t\<bar> \<le> 1/2"
  unfolding round_even_def Let_def by (auto simp: abs_if) linarith+

lemma float_ulp_small:
  assumes "x \<noteq> 0" "\<bar>x\<bar> < 2 ^ 22"
  shows "0 < float_ulp x \<and> float_ulp x \<le> 1/4"
proof -
  define e where "e = \<lfloor>log 2 \<bar>x\<bar>\<rfloor>"
  have "log 2 \<bar>x\<bar> < 22"
    using assms by (subst log_less_iff) (simp_all add: powr_numeral)
  hence "e < 22" unfolding e_def by (simp add: floor_less_iff)
  hence "nat (max (- 126) e + 126) \<le> 147" by linarith
  hence "nat (max (- 126) \<lfloor>log 2 \<bar>x\<bar>\<rfloor> + 126) \<le> 147" unfolding e_def .
  hence "(2::real) ^ nat (max (- 126) \<lfloor>log 2 \<bar>x\<bar>\<rfloor> + 126) \<le> 2 ^ 147"
    by (intro power_increasing) simp_all
  hence "float_ulp x \<le> 2 ^ 147 / 2 ^ 149"
    unfolding float_ulp_def by (intro divide_right_mono) simp_all
  moreover have "0 < float_ulp x" by (simp add: float_ulp_def)
  ultimately show ?thesis by simp
qed

lemma float_round_advances:
  assumes "\<bar>v\<bar> \<le> 2 ^ 21"
  shows "v < float_round (v + 1/4)"
proof (cases "v + 1/4 = 0")
  case True
  hence "v = - (1/4)" by simp
  thus ?thesis by (simp add: float_round_0)
next
  case False
  define x where "x = v + 1/4"
  have "\<bar>x\<bar> < 2 ^ 22" using assms by (simp add: x_def abs_if split: if_splits)
  with False have u: "0 < float_ulp x" "float_ulp x \<le> 1/4"
    using float_ulp_small [of x] by (simp_all add: x_def)
  define t where "t = x / float_ulp x"
  have x: "x = t * float_ulp x" using u by (simp add: t_def)
  have "\<bar>of_int (round_even t) - t\<bar> \<le> 1/2" by (rule round_even_near)
  hence "t - 1/2 \<le> of_int (round_even t)" by (simp add: abs_if split: if_splits)
  hence "(t - 1/2) * float_ulp x \<le> of_int (round_even t) * float_ulp x"
    using u by (intro mult_right_mono) simp_all
  hence "x - float_ulp x / 2 \<le> float_round x"
    using False x by (simp add: float_round_def x_def [symmetric] t_def [symmetric] algebra_simps)
  thus ?thesis using u by (simp add: x_def)
qed

text \<open>The numbers met in the examples below are numbers of single precision.\<close>

lemma float_round_eighths:
  "float_round (3/8) = 3/8" "float_round (- (3/8)) = - (3/8)"
  "float_round (1/8) = 1/8" "float_round (- (1/8)) = - (1/8)"
  "float_round 3 = 3" "float_round (21/8) = 21/8" "float_round (23/8) = 23/8"
  "float_round (25/8) = 25/8" "float_round (27/8) = 27/8" "float_round (29/8) = 29/8"
  "float_round (5/8) = 5/8"
  using float_round_eval [of 25 "3/8"] round_even_int [of 12582912]
    float_round_eval [of 25 "- (3/8)"] round_even_int [of "- 12582912"]
    float_round_eval [of 26 "1/8"] round_even_int [of 8388608]
    float_round_eval [of 26 "- (1/8)"] round_even_int [of "- 8388608"]
    float_round_eval [of 22 3] round_even_int [of 12582912]
    float_round_eval [of 22 "21/8"] round_even_int [of 11010048]
    float_round_eval [of 22 "23/8"] round_even_int [of 12058624]
    float_round_eval [of 22 "25/8"] round_even_int [of 13107200]
    float_round_eval [of 22 "27/8"] round_even_int [of 14155776]
    float_round_eval [of 22 "29/8"] round_even_int [of 15204352]
    float_round_eval [of 24 "5/8"] round_even_int [of 10485760]
  by simp_all

declare float_steps.simps [simp del]

lemma float_steps_cell_0: "float_steps (- (3/8)) (3/8) = [- (3/8), - (1/8), 1/8, 3/8]"
  by (simp add: float_steps.simps [of "- (3/8)"] float_steps.simps [of "- (1/8)"]
      float_steps.simps [of "1/8"] float_steps.simps [of "3/8"] float_steps.simps [of "5/8"]
      float_round_eighths)

lemma float_steps_cell_3: "float_steps (21/8) (27/8) = [21/8, 23/8, 25/8, 27/8]"
  by (simp add: float_steps.simps [of "21/8"] float_steps.simps [of "23/8"]
      float_steps.simps [of "25/8"] float_steps.simps [of "27/8"] float_steps.simps [of "29/8"]
      float_round_eighths)

lemma steps_cell_0:
  "steps (to_float (to_float (Fin 0) - Fin (375/1000))) (to_float (to_float (Fin 0) + Fin (375/1000))) =
     [Fin (- (3/8)), Fin (- (1/8)), Fin (1/8), Fin (3/8)]"
  by (simp add: float_round_0 float_round_eighths float_steps_cell_0)

lemma steps_cell_3:
  "steps (to_float (to_float (Fin 3) - Fin (375/1000))) (to_float (to_float (Fin 3) + Fin (375/1000))) =
     [Fin (21/8), Fin (23/8), Fin (25/8), Fin (27/8)]"
  by (simp add: float_round_eighths float_steps_cell_3)

text \<open>
  The number of samples is not always four. For the centroid coordinate 0.2 and the pixel
  0 the bounds are -0.575 and 0.175 rounded to single precision, and the fourth value of
  the loop variable is one unit in the last place above the upper bound: the loop takes
  three samples.
\<close>

lemma float_round_fifth:
  "float_round (- (1/5)) = - (13421773/67108864)"
  "float_round (- (38587597/67108864)) = - (9646899/16777216)"
  "float_round (11744051/67108864) = 11744051/67108864"
  "float_round (- (5452595/16777216)) = - (5452595/16777216)"
  "float_round (- (1258291/16777216)) = - (1258291/16777216)"
  "float_round (2936013/16777216) = 2936013/16777216"
  using float_round_eval [of 26 "- (1/5)"]
    float_round_eval [of 24 "- (38587597/67108864)"]
    float_round_eval [of 26 "11744051/67108864"] round_even_int [of 11744051]
    float_round_eval [of 25 "- (5452595/16777216)"] round_even_int [of "- 10905190"]
    float_round_eval [of 27 "- (1258291/16777216)"] round_even_int [of "- 10066328"]
    float_round_eval [of 26 "2936013/16777216"] round_even_int [of 11744052]
  by (simp_all add: round_even_def)

lemma float_steps_fifth:
  "float_steps (- (9646899/16777216)) (11744051/67108864) =
     [- (9646899/16777216), - (5452595/16777216), - (1258291/16777216)]"
  by (simp add: float_steps.simps [of "- (9646899/16777216)"]
      float_steps.simps [of "- (5452595/16777216)"] float_steps.simps [of "- (1258291/16777216)"]
      float_steps.simps [of "2936013/16777216"] float_round_fifth)

lemma steps_three_samples:
  "steps (to_float (to_float (Fin 0 - Fin (1/5)) - Fin (375/1000)))
         (to_float (to_float (Fin 0 - Fin (1/5)) + Fin (375/1000))) =
     [Fin (- (9646899/16777216)), Fin (- (5452595/16777216)), Fin (- (1258291/16777216))]"
  by (simp add: float_round_fifth float_steps_fifth)

subsubsection \<open>The test on the corners of the cell\<close>

lemma fp_max_Fin: "(if Fin a > Fin b then Fin a else Fin b) = Fin (max a b)"
  by (simp add: max_def)

lemma corner_expon_cases:
  "(\<exists>c. corner_expon X Y a b d = Fin c) \<longleftrightarrow> \<not> (isnan X \<or> isnan Y \<or> isnan a \<or> isnan b \<or> isnan d)"
  by (cases X; cases Y; cases a; cases b; cases d) (simp_all add: corner_expon_def)

lemma fp_sub_nan:
  "isnan (to_float (to_float (Fin a - x) - Fin b)) \<longleftrightarrow> isnan x"
  "isnan (to_float (to_float (Fin a - x) + Fin b)) \<longleftrightarrow> isnan x"
  by (cases x; simp)+

text \<open>
  C1, as the code has it. With the interpolation flag set, the code takes the maximum of
  the four corner exponents (at the offsets -0.375 and +0.375 from the pixel centre, in
  single precision) and accumulates the cell when that maximum is at most 9: the cell is
  accumulated exactly when all four corner exponents are at most 9, and skipped as soon
  as one of them exceeds 9 (or is NaN). An accumulated cell is sampled where the two
  loops stepping by 0.25 from the lower to the upper offset take it; how many samples
  that makes is not part of the statement.
\<close>

theorem interp_cell_gate:
  "calcmom_pixel fluxOnly img xcen ycen bkgd True w11 w12 w22 i j acc =
     (let xl = to_float (to_float (Fin (of_int j) - xcen) - Fin (375/1000));
          xh = to_float (to_float (Fin (of_int j) - xcen) + Fin (375/1000));
          yl = to_float (to_float (Fin (of_int i) - ycen) - Fin (375/1000));
          yh = to_float (to_float (Fin (of_int i) - ycen) + Fin (375/1000))
      in if corner_expon xl yl w11 w12 w22 \<le> Fin 9 \<and> corner_expon xh yh w11 w12 w22 \<le> Fin 9 \<and>
            corner_expon xl yh w11 w12 w22 \<le> Fin 9 \<and> corner_expon xh yl w11 w12 w22 \<le> Fin 9
         then interp_cell fluxOnly xcen ycen w11 w12 w22 (pixel img j i - bkgd)
                (steps yl yh) (steps xl xh) acc
         else acc)"
proof -
  let ?xl = "to_float (to_float (Fin (of_int j) - xcen) - Fin (375/1000))"
  let ?xh = "to_float (to_float (Fin (of_int j) - xcen) + Fin (375/1000))"
  let ?yl = "to_float (to_float (Fin (of_int i) - ycen) - Fin (375/1000))"
  let ?yh = "to_float (to_float (Fin (of_int i) - ycen) + Fin (375/1000))"
  show ?thesis
  proof (cases "isnan xcen \<or> isnan ycen \<or> isnan w11 \<or> isnan w12 \<or> isnan w22")
    case True
    then have n: "\<And>c. corner_expon ?xl ?yl w11 w12 w22 \<noteq> Fin c" "\<And>c. corner_expon ?xh ?yh w11 w12 w22 \<noteq> Fin c"
        "\<And>c. corner_expon ?xl ?yh w11 w12 w22 \<noteq> Fin c" "\<And>c. corner_expon ?xh ?yl w11 w12 w22 \<noteq> Fin c"
      using corner_expon_cases [of ?xl ?yl w11 w12 w22] corner_expon_cases [of ?xh ?yh w11 w12 w22]
        corner_expon_cases [of ?xl ?yh w11 w12 w22] corner_expon_cases [of ?xh ?yl w11 w12 w22]
      by (auto simp only: fp_sub_nan)
    have c: "corner_expon ?xl ?yl w11 w12 w22 = NaN" "corner_expon ?xh ?yh w11 w12 w22 = NaN"
        "corner_expon ?xl ?yh w11 w12 w22 = NaN" "corner_expon ?xh ?yl w11 w12 w22 = NaN"
      using n by (metis fp.exhaust)+
    show ?thesis
      unfolding calcmom_pixel_def Let_def c by simp
  next
    case False
    then obtain c1 c2 c3 c4 where
      c: "corner_expon ?xl ?yl w11 w12 w22 = Fin c1" "corner_expon ?xh ?yh w11 w12 w22 = Fin c2"
        "corner_expon ?xl ?yh w11 w12 w22 = Fin c3" "corner_expon ?xh ?yl w11 w12 w22 = Fin c4"
      using corner_expon_cases [of ?xl ?yl w11 w12 w22] corner_expon_cases [of ?xh ?yh w11 w12 w22]
        corner_expon_cases [of ?xl ?yh w11 w12 w22] corner_expon_cases [of ?xh ?yl w11 w12 w22]
      by (auto simp only: fp_sub_nan)
    show ?thesis
      unfolding calcmom_pixel_def Let_def c fp_max_Fin by simp
  qed
qed

theorem interp_cell_gate_witness:
  "calcmom_pixel False (flat_image 1 1 1) (Fin 0) (Fin 0) (Fin 0) True (Fin 1) (Fin 0) (Fin 1) 0 0
        zero_moments =
     interp_cell False (Fin 0) (Fin 0) (Fin 1) (Fin 0) (Fin 1) (Fin 1)
       [Fin (- (3/8)), Fin (- (1/8)), Fin (1/8), Fin (3/8)]
       [Fin (- (3/8)), Fin (- (1/8)), Fin (1/8), Fin (3/8)] zero_moments"
proof -
  have d: "Fin (real_of_int 0) - Fin 0 = Fin 0" by simp
  have e: "to_float (to_float (Fin 0) - Fin (375/1000)) = Fin (- (3/8))"
      "to_float (to_float (Fin 0) + Fin (375/1000)) = Fin (3/8)"
    by (simp_all add: float_round_0 float_round_eighths)
  show ?thesis
    using interp_cell_gate [of False "flat_image 1 1 1" "Fin 0" "Fin 0" "Fin 0" "Fin 1" "Fin 0" "Fin 1" 0 0 zero_moments]
    unfolding Let_def d steps_cell_0
    unfolding e
    by (simp add: corner_expon_def)
qed

text \<open>
  The claim as stated has the cell accumulated whenever at least one corner exponent is
  at most 9. With weights (1, 0, 1), centroid (0, 0) and the pixel in column 3 of row 0,
  the corner nearest to the centroid has exponent 7.03125, the farthest 11.53125: the cell
  is skipped and the sums stay as they were, although accumulating the sub-grid of this
  pixel (value 1, background 0) would have changed the sum.
\<close>

lemma real_pos_neq_zero: "0 < (x::real) \<Longrightarrow> x \<noteq> 0"
  by simp

lemma skipped_cell_psum: "psum skipped_cell \<noteq> Fin 0"
proof -
  have s: "Fin 0 - Fin 0 = Fin 0" "Fin 3 - Fin 0 = Fin 3" by simp_all
  show ?thesis
    unfolding skipped_cell_def s steps_cell_0 steps_cell_3
    apply (simp add: interp_cell_def interp_sample_def Let_def zero_moments_def)
    apply (rule real_pos_neq_zero)
    apply (intro add_pos_pos mult_pos_pos exp_gt_zero zero_less_numeral)
    done
qed

theorem interp_cell_counterexample:
  "corner_expon (to_float (to_float (Fin 3 - Fin 0) - Fin (375/1000)))
      (to_float (to_float (Fin 0 - Fin 0) - Fin (375/1000))) (Fin 1) (Fin 0) (Fin 1) \<le> Fin 9
   \<and> calcmom_pixel False (flat_image 4 1 1) (Fin 0) (Fin 0) (Fin 0) True (Fin 1) (Fin 0) (Fin 1) 0 3
        zero_moments = zero_moments
   \<and> psum skipped_cell \<noteq> psum zero_moments"
proof -
  have "psum skipped_cell \<noteq> psum zero_moments"
    using skipped_cell_psum by (simp add: zero_moments_def)
  then show ?thesis
    by (simp add: calcmom_pixel_def corner_expon_def Let_def float_round_0 float_round_eighths)
qed

subsection \<open>When calcmom fails\<close>

lemma shape_of_simps [simp]:
  "getFlags (shape_of xx xy yy) = {}" "getIxx (shape_of xx xy yy) = Fin xx"
  "getIxy (shape_of xx xy yy) = Fin xy" "getIyy (shape_of xx xy yy) = Fin yy"
  by (simp_all add: shape_of_def)

lemma set_amom_bbox_1x1:
  "set_amom_bbox 1 1 (Fin 0) (Fin 0) (Fin 1) s12 (Fin 1) (Fin 1000) =
     Inr \<lparr> getMinX = 0, getMinY = 0, getMaxX = 0, getMaxY = 0 \<rparr>"
  "set_amom_bbox 1 1 (Fin 0) (Fin 0) (Fin (1 / 4194304)) s12 (Fin 1) (Fin 1000) =
     Inr \<lparr> getMinX = 0, getMinY = 0, getMaxX = 0, getMaxY = 0 \<rparr>"
  by (simp_all add: set_amom_bbox_def bindE_def in_int_range_def trunc_real_def BoxI_corners_def)


lemma calcmom_sums_flat_2x2:
  "calcmom_sums False (flat_image 2 2 1) (Fin 0) (Fin 0)
     \<lparr> getMinX = 0, getMinY = 0, getMaxX = 1, getMaxY = 1 \<rparr> (Fin 0) False
     (Fin 0) (Fin 0) (Fin 0) =
   \<lparr> psum = Fin 4, psumx = Fin 2, psumy = Fin 2, psumxx = Fin 2, psumxy = Fin 1,
     psumyy = Fin 2, psums4 = Fin 0 \<rparr>"
proof -
  have u: "[0..1::int] = [0, 1]" by (simp add: upto.simps)
  show ?thesis
    by (simp add: calcmom_sums_def u calcmom_pixel_def Let_def zero_moments_def)
qed






subsection \<open>getFixedMomentsFlux does not look at the result of calcmom\<close>

text \<open>
  What does hold: a result that is returned has NaN as its error, and when getWeights
  fails the result is (NaN, NaN).
\<close>

lemma getFixedMomentsFlux_error_nan:
  assumes "getFixedMomentsFlux img bkgd xcen ycen shape = Inr (flux, err)"
  shows "err = NaN"
  using assms unfolding getFixedMomentsFlux_def bindE_def Let_def
  by (auto split: sum.splits if_splits prod.splits)

lemma getFixedMomentsFlux_weights_fail:
  assumes "set_amom_bbox (getWidth img) (getHeight img) xcen ycen
             (getIxx shape) (getIxy shape) (getIyy shape) (Fin 1000) = Inr bbox"
    and "getWeights (getIxx shape) (getIxy shape) (getIyy shape) = Inr ((False, d), w)"
  shows "getFixedMomentsFlux img bkgd xcen ycen shape = Inr (NaN, NaN)"
  using assms by (simp add: getFixedMomentsFlux_def bindE_def)

text \<open>
  C2. The claim has getFixedMomentsFlux return (NaN, NaN) when calcmom fails. The code
  calls calcmom and discards the returned value: for the fixed moments (2^-22, 0, 1) the
  weight w11 is 2^22, calcmom returns -1 before it writes the sum, and the function
  returns the flux 0 it had initialised, with NaN as the error.
\<close>

theorem getFixedMomentsFlux_ignores_failure:
  "calcmom True (flat_image 1 1 5) (Fin 0) (Fin 0)
      \<lparr> getMinX = 0, getMinY = 0, getMaxX = 0, getMaxY = 0 \<rparr> (Fin 0) True
      (Fin 4194304) (Fin 0) (Fin 1) False (zero_moments \<lparr> psum := Fin 0 \<rparr>) =
      Inr (- 1, zero_moments \<lparr> psum := Fin 0 \<rparr>)
   \<and> getFixedMomentsFlux (flat_image 1 1 5) (Fin 0) (Fin 0) (Fin 0) (shape_of (1 / 4194304) 0 1) =
      Inr (Fin 0, NaN)"
proof -
  have g: "getWeights (Fin (1 / 4194304)) (Fin 0) (Fin 1) =
             Inr ((True, Fin (1 / 4194304)), Fin 4194304, Fin 0, Fin 1)"
    by (simp add: getWeights_def FLT_EPSILON_def Let_def)
  have i: "getInterp (Fin (1 / 4194304)) (Fin 1) (Fin (1 / 4194304))"
    by (simp add: getInterp_def Let_def)
  have c: "calcmom True (flat_image 1 1 5) (Fin 0) (Fin 0)
      \<lparr> getMinX = 0, getMinY = 0, getMaxX = 0, getMaxY = 0 \<rparr> (Fin 0) True
      (Fin 4194304) (Fin 0) (Fin 1) False (zero_moments \<lparr> psum := Fin 0 \<rparr>) =
      Inr (- 1, zero_moments \<lparr> psum := Fin 0 \<rparr>)"
    by (simp add: calcmom_def)
  show ?thesis
    by (simp add: getFixedMomentsFlux_def set_amom_bbox_1x1 g i c bindE_def Let_def)
qed

subsection \<open>getWeights on a singular covariance\<close>

text \<open>
  The principal-axes decomposition of a positive-semidefinite matrix is real, and adding
  1/12 in quadrature to both axes adds 1/12 to both diagonal elements of the matrix.
\<close>

lemma axes_real:
  assumes det: "0 \<le> s11 * s22 - s12 * s12" and tr: "0 \<le> s11 + s22"
  defines "t \<equiv> sqrt ((s11 - s22) * (s11 - s22) + 4 * s12 * s12)"
  shows "0 \<le> (s11 + s22 + t) / 2" and "0 \<le> (s11 + s22 - t) / 2"
proof -
  have r0: "0 \<le> (s11 - s22) * (s11 - s22) + 4 * s12 * s12"
    by (simp add: mult.assoc)
  have t0: "0 \<le> t" using r0 by (simp add: t_def)
  have "t\<^sup>2 = (s11 - s22) * (s11 - s22) + 4 * s12 * s12"
    unfolding t_def using r0 by (rule real_sqrt_pow2)
  also have "\<dots> \<le> (s11 + s22)\<^sup>2"
    using det by (simp add: power2_eq_square algebra_simps)
  finally have "t \<le> s11 + s22"
    using tr by (rule power2_le_imp_le)
  with t0 tr show "0 \<le> (s11 + s22 + t) / 2" and "0 \<le> (s11 + s22 - t) / 2"
    by simp_all
qed

lemma regularized_axes_Fin:
  assumes det: "0 \<le> s11 * s22 - s12 * s12" and tr: "0 \<le> s11 + s22"
    and t: "t = sqrt ((s11 - s22) * (s11 - s22) + 4 * s12 * s12)"
  shows "regularized_axes (Fin s11) (Fin s12) (Fin s22) =
      \<lparr> axis_a = Fin (sqrt ((s11 + s22 + t) / 2 + 1/12)),
        axis_b = Fin (sqrt ((s11 + s22 - t) / 2 + 1/12)),
        theta = Fin (atan2 (2 * s12) (s11 - s22) / 2) \<rparr>"
proof -
  have r0: "\<not> (s11 - s22) * (s11 - s22) + 4 * s12 * s12 < 0"
    by (simp add: mult.assoc not_less)
  from axes_real [OF det tr] have ab: "0 \<le> (s11 + s22 + t) / 2" "0 \<le> (s11 + s22 - t) / 2"
    by (simp_all add: t)
  then have ab': "\<not> (s11 + s22 + t) / 2 < 0" "\<not> (s11 + s22 - t) / 2 < 0"
      "\<not> (s11 + s22 + t) / 2 + 1/12 < 0" "\<not> (s11 + s22 - t) / 2 + 1/12 < 0"
    by linarith+
  have sq: "sqrt ((s11 + s22 + t) / 2) * sqrt ((s11 + s22 + t) / 2) = (s11 + s22 + t) / 2"
      "sqrt ((s11 + s22 - t) / 2) * sqrt ((s11 + s22 - t) / 2) = (s11 + s22 - t) / 2"
    using ab by simp_all
  have A: "Axes_of_Quadrupole \<lparr> ixx = Fin s11, iyy = Fin s22, ixy = Fin s12 \<rparr> =
      \<lparr> axis_a = Fin (sqrt ((s11 + s22 + t) / 2)),
        axis_b = Fin (sqrt ((s11 + s22 - t) / 2)),
        theta = Fin (atan2 (2 * s12) (s11 - s22) / 2) \<rparr>"
    using r0 ab'(1,2) by (simp add: Axes_of_Quadrupole_def Let_def t [symmetric])
  from ab have nn: "0 \<le> s11 + s22 + t" "0 \<le> s11 + s22 - t"
    by simp_all
  show ?thesis
    unfolding regularized_axes_def Let_def A
    using ab'(3,4) nn by simp
qed

lemma sqrt_factor:
  assumes "x \<noteq> 0"
  shows "sqrt (x * x + y * y) = \<bar>x\<bar> * sqrt (1 + (y / x)\<^sup>2)"
proof -
  have "x * x + y * y = (x * x) * (1 + (y / x)\<^sup>2)"
    using assms by (simp add: power2_eq_square field_simps)
  then have "sqrt (x * x + y * y) = sqrt (x * x) * sqrt (1 + (y / x)\<^sup>2)"
    by (simp add: real_sqrt_mult)
  then show ?thesis by simp
qed

lemma sqrt_one_plus_pos: "0 < sqrt (1 + (z::real)\<^sup>2)"
  by (simp add: add_pos_nonneg)

lemma atan2_polar:
  "sqrt (x * x + y * y) * cos (atan2 y x) = x"
  "sqrt (x * x + y * y) * sin (atan2 y x) = y"
proof -
  have "sqrt (x * x + y * y) * cos (atan2 y x) = x \<and> sqrt (x * x + y * y) * sin (atan2 y x) = y"
  proof (cases "x = 0")
    case True
    then show ?thesis by (simp add: atan2_def)
  next
    case False
    note f = sqrt_factor [OF False, of y]
    have p: "sqrt (1 + (y / x)\<^sup>2) \<noteq> 0"
      using sqrt_one_plus_pos [of "y / x"] by simp
    show ?thesis
    proof (cases "0 < x")
      case True
      then show ?thesis
        using p False by (simp add: atan2_def f cos_arctan sin_arctan)
    next
      case False
      with \<open>x \<noteq> 0\<close> have "x < 0" by simp
      then show ?thesis
        using p by (simp add: atan2_def f cos_arctan sin_arctan)
    qed
  qed
  then show "sqrt (x * x + y * y) * cos (atan2 y x) = x"
    "sqrt (x * x + y * y) * sin (atan2 y x) = y" by simp_all
qed

lemma half_angle:
  fixes u :: real
  shows "cos (u / 2) * cos (u / 2) = (1 + cos u) / 2"
    and
  "sin (u / 2) * sin (u / 2) = (1 - cos u) / 2"
    and "cos (u / 2) * sin (u / 2) = sin u / 2"
proof -
  have c: "cos u = 2 * (cos (u / 2))\<^sup>2 - 1"
    using cos_double_cos [of "u / 2"] by simp
  have s: "sin u = 2 * sin (u / 2) * cos (u / 2)"
    using sin_double [of "u / 2"] by simp
  have e: "(sin (u / 2))\<^sup>2 + (cos (u / 2))\<^sup>2 = 1"
    by simp
  show "cos (u / 2) * cos (u / 2) = (1 + cos u) / 2"
    using c by (simp add: power2_eq_square)
  show "sin (u / 2) * sin (u / 2) = (1 - cos u) / 2"
    using c e by (simp add: power2_eq_square) 
  show "cos (u / 2) * sin (u / 2) = sin u / 2"
    using s by simp
qed

lemma regularized_quadrupole:
  assumes det: "0 \<le> s11 * s22 - s12 * s12" and tr: "0 \<le> s11 + s22"
  shows "Quadrupole_of_Axes (regularized_axes (Fin s11) (Fin s12) (Fin s22)) =
           \<lparr> ixx = Fin (s11 + 1/12), iyy = Fin (s22 + 1/12), ixy = Fin s12 \<rparr>"
proof -
  define t where "t = sqrt ((s11 - s22) * (s11 - s22) + 4 * s12 * s12)"
  define u where "u = atan2 (2 * s12) (s11 - s22)"
  define A where "A = (s11 + s22 + t) / 2 + 1/12"
  define B where "B = (s11 + s22 - t) / 2 + 1/12"
  have t': "t = sqrt ((s11 - s22) * (s11 - s22) + (2 * s12) * (2 * s12))"
    by (simp add: t_def)
  have C: "t * cos u = s11 - s22" and S: "t * sin u = 2 * s12"
    unfolding t' u_def by (rule atan2_polar)+
  from axes_real [OF det tr] have AB: "0 \<le> A" "0 \<le> B"
    by (simp_all add: A_def B_def t_def)
  then have sq: "sqrt A * sqrt A = A" "sqrt B * sqrt B = B"
    by simp_all
  have ax: "regularized_axes (Fin s11) (Fin s12) (Fin s22) =
      \<lparr> axis_a = Fin (sqrt A), axis_b = Fin (sqrt B), theta = Fin (u / 2) \<rparr>"
    unfolding A_def B_def u_def by (rule regularized_axes_Fin [OF det tr t_def])
  have d: "A - B = t" "A + B = s11 + s22 + 1/6"
    by (simp_all add: A_def B_def field_simps)
  have xx: "cos (u / 2) * cos (u / 2) * A + sin (u / 2) * sin (u / 2) * B = s11 + 1/12"
  proof -
    have "cos (u / 2) * cos (u / 2) * A + sin (u / 2) * sin (u / 2) * B =
            (A + B) / 2 + (A - B) * cos u / 2"
      by (simp add: half_angle field_simps)
    also have "\<dots> = s11 + 1/12"
      unfolding d using C by (simp add: field_simps)
    finally show ?thesis .
  qed
  have yy: "sin (u / 2) * sin (u / 2) * A + cos (u / 2) * cos (u / 2) * B = s22 + 1/12"
  proof -
    have "sin (u / 2) * sin (u / 2) * A + cos (u / 2) * cos (u / 2) * B =
            (A + B) / 2 - (A - B) * cos u / 2"
      by (simp add: half_angle field_simps)
    also have "\<dots> = s22 + 1/12"
      unfolding d using C by (simp add: field_simps)
    finally show ?thesis .
  qed
  have xy: "(A - B) * cos (u / 2) * sin (u / 2) = s12"
  proof -
    have "(A - B) * cos (u / 2) * sin (u / 2) = (A - B) * (cos (u / 2) * sin (u / 2))"
      by simp
    also have "\<dots> = t * sin u / 2"
      unfolding d half_angle by simp
    also have "\<dots> = s12"
      using S by simp
    finally show ?thesis .
  qed
  show ?thesis
    unfolding ax Quadrupole_of_Axes_def Let_def
    by (simp add: sq xx yy xy del: real_sqrt_mult_self)
qed

lemma psd_diagonal:
  assumes det: "0 \<le> s11 * s22 - s12 * s12" and tr: "0 \<le> s11 + (s22::real)"
  shows "0 \<le> s11" and "0 \<le> s22"
proof -
  have p: "0 \<le> s11 * s22"
    using det zero_le_square [of s12] by linarith
  show "0 \<le> s11"
  proof (rule ccontr)
    assume "\<not> 0 \<le> s11"
    then have n: "s11 < 0" by simp
    with tr have "0 < s22" by linarith
    with n have "s11 * s22 < 0" by (rule mult_neg_pos)
    with p show False by simp
  qed
  show "0 \<le> s22"
  proof (rule ccontr)
    assume "\<not> 0 \<le> s22"
    then have n: "s22 < 0" by simp
    with tr have "0 < s11" by linarith
    from this n have "s11 * s22 < 0" by (rule mult_pos_neg)
    with p show False by simp
  qed
qed

text \<open>
  C4, as the code has it. For (0, 0, 0), and for every non-NaN triple that is
  positive-semidefinite (determinant and trace at least 0) with a determinant below the
  machine epsilon of \<^verbatim>\<open>float\<close>, getWeights does not raise and reports success; both
  regularized axes are at least sqrt (1/12); the weights are the inverse of the
  regularized covariance, which is (sigma11 + 1/12, sigma12, sigma22 + 1/12); the
  determinant reported is that of the regularized covariance, and it, w11 and w22 are
  positive (the arithmetic being exact). Nothing is stated about a triple that is not
  positive-semidefinite.
\<close>

theorem getWeights_degenerate:
  assumes det: "0 \<le> s11 * s22 - s12 * s12"
    and small: "Fin s11 * Fin s22 - Fin s12 * Fin s12 < FLT_EPSILON"
    and tr: "0 \<le> s11 + s22"
  shows "(\<exists>a b th. regularized_axes (Fin s11) (Fin s12) (Fin s22) =
                     \<lparr> axis_a = Fin a, axis_b = Fin b, theta = Fin th \<rparr> \<and>
                   sqrt (1/12) \<le> a \<and> sqrt (1/12) \<le> b) \<and>
         getWeights (Fin s11) (Fin s12) (Fin s22) =
           Inr ((True, getDeterminant (Quadrupole_of_Axes (regularized_axes (Fin s11) (Fin s12) (Fin s22)))),
                Quadrupole_inverse (Quadrupole_of_Axes (regularized_axes (Fin s11) (Fin s12) (Fin s22)))) \<and>
         (\<exists>D w11 w12 w22.
            getWeights (Fin s11) (Fin s12) (Fin s22) = Inr ((True, Fin D), Fin w11, Fin w12, Fin w22) \<and>
            D = (s11 + 1/12) * (s22 + 1/12) - s12 * s12 \<and>
            w11 = (s22 + 1/12) / D \<and> w12 = - s12 / D \<and> w22 = (s11 + 1/12) / D \<and>
            0 < D \<and> 0 < w11 \<and> 0 < w22)"
proof (intro conjI)
  define t where "t = sqrt ((s11 - s22) * (s11 - s22) + 4 * s12 * s12)"
  from axes_real [OF det tr] have ab: "0 \<le> (s11 + s22 + t) / 2" "0 \<le> (s11 + s22 - t) / 2"
    by (simp_all add: t_def)
  have "sqrt (1/12) \<le> sqrt ((s11 + s22 + t) / 2 + 1/12)" "sqrt (1/12) \<le> sqrt ((s11 + s22 - t) / 2 + 1/12)"
    using ab by (simp_all del: real_sqrt_le_iff add: real_sqrt_le_mono)
  with regularized_axes_Fin [OF det tr t_def]
  show "\<exists>a b th. regularized_axes (Fin s11) (Fin s12) (Fin s22) =
                     \<lparr> axis_a = Fin a, axis_b = Fin b, theta = Fin th \<rparr> \<and>
                   sqrt (1/12) \<le> a \<and> sqrt (1/12) \<le> b"
    by blast
  from small have lt: "s11 * s22 - s12 * s12 < 1 / 2 ^ 23"
    by (simp add: FLT_EPSILON_def)
  then show g: "getWeights (Fin s11) (Fin s12) (Fin s22) =
           Inr ((True, getDeterminant (Quadrupole_of_Axes (regularized_axes (Fin s11) (Fin s12) (Fin s22)))),
                Quadrupole_inverse (Quadrupole_of_Axes (regularized_axes (Fin s11) (Fin s12) (Fin s22))))"
    by (simp add: getWeights_def FLT_EPSILON_def Let_def)
  define D where "D = (s11 + 1/12) * (s22 + 1/12) - s12 * s12"
  from psd_diagonal [OF det tr] have nn: "0 \<le> s11" "0 \<le> s22" .
  have "D = (s11 * s22 - s12 * s12) + (s11 + s22) / 12 + 1/144"
    by (simp add: D_def algebra_simps)
  moreover have "0 < (s11 * s22 - s12 * s12) + (s11 + s22) / 12 + 1/144"
    using det tr by (intro add_nonneg_pos add_nonneg_nonneg) simp_all
  ultimately have D0: "0 < D" by simp
  have q: "getDeterminant \<lparr> ixx = Fin (s11 + 1/12), iyy = Fin (s22 + 1/12), ixy = Fin s12 \<rparr> = Fin D"
    by (simp add: getDeterminant_def D_def)
  have "getWeights (Fin s11) (Fin s12) (Fin s22) =
          Inr ((True, Fin D), Fin ((s22 + 1/12) / D), Fin (- s12 / D), Fin ((s11 + 1/12) / D))"
    unfolding g regularized_quadrupole [OF det tr] Quadrupole_inverse_def Let_def q
    using D0 by simp
  moreover have "0 < (s22 + 1/12) / D" "0 < (s11 + 1/12) / D"
    using D0 nn by (simp_all add: add_nonneg_pos)
  ultimately show "\<exists>D w11 w12 w22.
            getWeights (Fin s11) (Fin s12) (Fin s22) = Inr ((True, Fin D), Fin w11, Fin w12, Fin w22) \<and>
            D = (s11 + 1/12) * (s22 + 1/12) - s12 * s12 \<and>
            w11 = (s22 + 1/12) / D \<and> w12 = - s12 / D \<and> w22 = (s11 + 1/12) / D \<and>
            0 < D \<and> 0 < w11 \<and> 0 < w22"
    using D0 unfolding D_def by blast
qed

theorem getWeights_degenerate_witness:
  "getWeights (Fin 0) (Fin 0) (Fin 0) = Inr ((True, Fin (1/144)), Fin 12, Fin 0, Fin 12) \<and>
   (\<exists>a b th. regularized_axes (Fin 0) (Fin 0) (Fin 0) =
                \<lparr> axis_a = Fin a, axis_b = Fin b, theta = Fin th \<rparr> \<and>
              sqrt (1/12) \<le> a \<and> sqrt (1/12) \<le> b)"
proof -
  have h: "(0::real) \<le> 0 * 0 - 0 * 0" "Fin 0 * Fin 0 - Fin 0 * Fin 0 < FLT_EPSILON" "(0::real) \<le> 0 + 0"
    by (simp_all add: FLT_EPSILON_def)
  from getWeights_degenerate [OF h] obtain D w11 w12 w22 where
    g: "getWeights (Fin 0) (Fin 0) (Fin 0) = Inr ((True, Fin D), Fin w11, Fin w12, Fin w22)"
    and v: "D = (0 + 1/12) * (0 + 1/12) - 0 * 0" "w11 = (0 + 1/12) / D" "w12 = - 0 / D"
      "w22 = (0 + 1/12) / D"
    and ax: "\<exists>a b th. regularized_axes (Fin 0) (Fin 0) (Fin 0) =
                \<lparr> axis_a = Fin a, axis_b = Fin b, theta = Fin th \<rparr> \<and>
              sqrt (1/12) \<le> a \<and> sqrt (1/12) \<le> b"
    by blast
  from v(1) have D: "D = 1/144"
    by simp
  from v(2-4) have "w11 = 12" "w12 = 0" "w22 = 12"
    unfolding D by simp_all
  with g ax D show ?thesis
    by simp
qed

text \<open>
  The claim as stated covers every non-NaN triple with a determinant below epsilon. For
  (1, 2, 1) the determinant is -3: the minor axis is the square root of a negative
  number, the regularized axis is NaN and not at least sqrt (1/12), and the call reports
  success with NaN for the determinant and the three weights.
\<close>

theorem getWeights_degenerate_counterexample:
  "\<not> isnan (Fin 1) \<and> \<not> isnan (Fin 2) \<and> Fin 1 * Fin 1 - Fin 2 * Fin 2 < FLT_EPSILON \<and>
   axis_b (regularized_axes (Fin 1) (Fin 2) (Fin 1)) = NaN \<and>
   getWeights (Fin 1) (Fin 2) (Fin 1) = Inr ((True, NaN), NaN, NaN, NaN)"
proof -
  have s: "sqrt 16 = 4"
    using real_sqrt_abs [of 4] by simp
  have a: "axis_b (Axes_of_Quadrupole \<lparr> ixx = Fin 1, iyy = Fin 1, ixy = Fin 2 \<rparr>) = NaN"
    by (simp add: Axes_of_Quadrupole_def Let_def s)
  have b: "axis_b (regularized_axes (Fin 1) (Fin 2) (Fin 1)) = NaN"
    by (simp add: regularized_axes_def Let_def a)
  have q: "Quadrupole_of_Axes (regularized_axes (Fin 1) (Fin 2) (Fin 1)) =
             \<lparr> ixx = NaN, iyy = NaN, ixy = NaN \<rparr>"
    by (simp add: Quadrupole_of_Axes_def Let_def b)
  show ?thesis
    by (simp add: b getWeights_def FLT_EPSILON_def Let_def q Quadrupole_inverse_def getDeterminant_def)
qed

subsection \<open>The adaptive loop and what follows it\<close>

declare amom_loop.simps [simp del]


lemma set_amom_bbox_one_pixel:
  assumes "0 \<le> max s11 s22"
  shows "set_amom_bbox 1 1 (Fin 0) (Fin 0) (Fin s11) s12 (Fin s22) (Fin 1000) =
           Inr \<lparr> getMinX = 0, getMinY = 0, getMaxX = 0, getMaxY = 0 \<rparr>"
proof -
  define r where "r = min (4 * sqrt (max s11 s22)) 1000"
  have r: "0 \<le> r" "r \<le> 1000"
    using assms by (simp_all add: r_def)
  then have rg: "\<bar>0::real\<bar> + \<bar>r\<bar> + 1/2 < 2 ^ 31"
    by simp
  have lo: "max 0 (trunc_real (0 - r - 1/2)) = 0"
    using r by (simp add: trunc_real_def ceiling_le_iff)
  have hi: "min (1 - 1) (trunc_real (0 + r + 1/2)) = 0"
    using r by (simp add: trunc_real_def)
  show ?thesis
    unfolding set_amom_bbox_Fin [OF assms r_def rg rg] lo hi
    by (simp add: BoxI_corners_def)
qed

lemma getWeights_initial:
  "getWeights (Fin (3/2)) (Fin 0) (Fin (3/2)) = Inr ((True, Fin (9/4)), Fin (2/3), Fin 0, Fin (2/3))"
  by (simp add: getWeights_def FLT_EPSILON_def Let_def)

lemma calcmom_zero_pixel:
  "calcmom False (flat_image 1 1 0) (Fin 0) (Fin 0)
     \<lparr> getMinX = 0, getMinY = 0, getMaxX = 0, getMaxY = 0 \<rparr> (Fin 0) False (Fin a) (Fin 0) (Fin c) s4 out =
   (if a < 0 then Inl AssertionFailed
    else if 1000000 < \<bar>a\<bar> \<or> 1000000 < \<bar>c\<bar> then Inr (- 1, out)
    else Inr (- 1, write_sums False s4 zero_moments out))"
  by (simp add: calcmom_def calcmom_sums_def calcmom_pixel_def Let_def zero_moments_def not_le)

lemma zero_pixel_run:
  "getAdaptiveMoments (flat_image 1 1 0) (Fin 0) (Fin 0) (Fin 0) (Fin 2) blank_shape zero_moments =
     Inr (False, blank_shape \<lparr> getFlags := {SHAPE_UNWEIGHTED_BAD} \<rparr>)"
  unfolding getAdaptiveMoments_def
  apply (simp add: amom_loop.simps amom_init_def MAXIT_def)
  apply (simp add: amom_round_def set_amom_bbox_one_pixel getWeights_initial FLT_EPSILON_def
      amom_latch_def getInterp_def Let_def amom_moments_def calcmom_zero_pixel write_sums_def
      zero_moments_def set_flag_def)
  apply (simp add: amom_finish_def amom_flagged_def MAXIT_def set_flag_def amom_unweighted_def
      calcmom_zero_pixel write_sums_def zero_moments_def bindE_def Let_def blank_shape_def)
  done

lemma amom_flagged_fields [simp]:
  "v_bbox (amom_flagged st) = v_bbox st"
  "v_interpflag (amom_flagged st) = v_interpflag st"
  "v_sums (amom_flagged st) = v_sums st"
  "v_iter (amom_flagged st) = v_iter st"
  "v_ampW (amom_flagged st) = v_ampW st"
  by (simp_all add: amom_flagged_def set_flag_def Let_def)

lemma calcmom_unweighted_returns:
  "\<exists>rc out. calcmom fluxOnly img xcen ycen bbox bkgd interpflag (Fin 0) (Fin 0) (Fin 0) s4 old = Inr (rc, out)"
  by (simp add: calcmom_def Let_def)

lemma amom_report_shape:
  assumes "amom_report mimage xcen ycen s = Inr (b, shp)"
  shows "b \<and> getIxx shp = v_sigma11W s \<and> getIxy shp = v_sigma12W s \<and> getIyy shp = v_sigma22W s \<and>
         getFlags shp = getFlags (v_shape s)"
  using assms unfolding amom_report_def bindE_def Let_def
  by (auto split: sum.splits if_splits)








text \<open>
  C3, as the code has it. When the UNWEIGHTED flag is set after the loop,
  getAdaptiveMoments reruns calcmom with weights (0, 0, 0) over the last box, and that
  call always returns. If it fails (or its sum is not above 0), the call returns false
  with UNWEIGHTED_BAD set and UNWEIGHTED cleared, and it writes the single-pixel moments
  (1/12, 0, 1/12) only when the sum is above 0; otherwise it leaves the moments of the
  shape as they were. If the rerun succeeds, the shape that is returned has the
  unweighted moments sumxx/sum, sumxy/sum, sumyy/sum, and the call returns true.
\<close>

theorem unweighted_fallback:
  assumes "SHAPE_UNWEIGHTED \<in> getFlags (v_shape (amom_flagged st))"
  shows "\<exists>rc out.
     calcmom False mimage xcen ycen (v_bbox st) bkgd (v_interpflag st) (Fin 0) (Fin 0) (Fin 0)
       False (v_sums st) = Inr (rc, out) \<and>
     (rc < 0 \<or> psum out \<le> Fin 0 \<longrightarrow>
        amom_finish mimage bkgd xcen ycen st =
          Inr (False,
               if Fin 0 < psum out then
                 (v_shape (amom_flagged st))
                   \<lparr> getFlags := insert SHAPE_UNWEIGHTED_BAD
                                   (getFlags (v_shape (amom_flagged st)) - {SHAPE_UNWEIGHTED}),
                     getIxx := Fin (1/12), getIxy := Fin 0, getIyy := Fin (1/12) \<rparr>
               else
                 (v_shape (amom_flagged st))
                   \<lparr> getFlags := insert SHAPE_UNWEIGHTED_BAD
                                   (getFlags (v_shape (amom_flagged st)) - {SHAPE_UNWEIGHTED}) \<rparr>)) \<and>
     (\<not> (rc < 0 \<or> psum out \<le> Fin 0) \<longrightarrow>
        amom_finish mimage bkgd xcen ycen st =
          amom_report mimage xcen ycen
            ((amom_flagged st)
               \<lparr> v_w11 := Fin 0, v_w12 := Fin 0, v_w22 := Fin 0, v_sums := out,
                 v_sigma11W := psumxx out / psum out,
                 v_sigma12W := psumxy out / psum out,
                 v_sigma22W := psumyy out / psum out \<rparr>) \<and>
        (\<forall>b shp. amom_finish mimage bkgd xcen ycen st = Inr (b, shp) \<longrightarrow>
           b \<and> getIxx shp = psumxx out / psum out \<and> getIxy shp = psumxy out / psum out \<and>
           getIyy shp = psumyy out / psum out))"
proof -
  obtain rc out where
    c: "calcmom False mimage xcen ycen (v_bbox st) bkgd (v_interpflag st) (Fin 0) (Fin 0) (Fin 0)
          False (v_sums st) = Inr (rc, out)"
    using calcmom_unweighted_returns by blast
  have f: "amom_finish mimage bkgd xcen ycen st = amom_unweighted mimage bkgd xcen ycen (amom_flagged st)"
    using assms by (simp add: amom_finish_def Let_def)
  have bad: "rc < 0 \<or> psum out \<le> Fin 0 \<Longrightarrow>
        amom_finish mimage bkgd xcen ycen st =
          Inr (False,
               if Fin 0 < psum out then
                 (v_shape (amom_flagged st))
                   \<lparr> getFlags := insert SHAPE_UNWEIGHTED_BAD
                                   (getFlags (v_shape (amom_flagged st)) - {SHAPE_UNWEIGHTED}),
                     getIxx := Fin (1/12), getIxy := Fin 0, getIyy := Fin (1/12) \<rparr>
               else
                 (v_shape (amom_flagged st))
                   \<lparr> getFlags := insert SHAPE_UNWEIGHTED_BAD
                                   (getFlags (v_shape (amom_flagged st)) - {SHAPE_UNWEIGHTED}) \<rparr>)"
    unfolding f amom_unweighted_def Let_def by (simp add: c bindE_def)
  have good: "\<not> (rc < 0 \<or> psum out \<le> Fin 0) \<Longrightarrow>
        amom_finish mimage bkgd xcen ycen st =
          amom_report mimage xcen ycen
            ((amom_flagged st)
               \<lparr> v_w11 := Fin 0, v_w12 := Fin 0, v_w22 := Fin 0, v_sums := out,
                 v_sigma11W := psumxx out / psum out,
                 v_sigma12W := psumxy out / psum out,
                 v_sigma22W := psumyy out / psum out \<rparr>)"
    unfolding f amom_unweighted_def Let_def by (simp add: c bindE_def)
  have rep: "\<not> (rc < 0 \<or> psum out \<le> Fin 0) \<Longrightarrow>
        (\<forall>b shp. amom_finish mimage bkgd xcen ycen st = Inr (b, shp) \<longrightarrow>
           b \<and> getIxx shp = psumxx out / psum out \<and> getIxy shp = psumxy out / psum out \<and>
           getIyy shp = psumyy out / psum out)"
    using good by (auto dest!: amom_report_shape)
  from c bad good rep show ?thesis by blast
qed

theorem unweighted_fallback_witness:
  "amom_finish (flat_image 2 2 1) (Fin 0) (Fin 0) (Fin 0) fallback_state =
     Inr (True, blank_shape \<lparr> getFlags := {SHAPE_UNWEIGHTED}, getI0 := Fin 0,
                  getIxx := Fin (1/2), getIxy := Fin (1/4), getIyy := Fin (1/2),
                  getIxy4 := Fin 0 \<rparr>)"
proof -
  have u: "SHAPE_UNWEIGHTED \<in> getFlags (v_shape (amom_flagged fallback_state))"
    by (simp add: fallback_state_def amom_flagged_def amom_init_def set_flag_def Let_def MAXIT_def
        zero_moments_def)
  have c: "calcmom False (flat_image 2 2 1) (Fin 0) (Fin 0) (v_bbox fallback_state) (Fin 0)
       (v_interpflag fallback_state) (Fin 0) (Fin 0) (Fin 0) False (v_sums fallback_state) =
     Inr (0, \<lparr> psum = Fin 4, psumx = Fin 2, psumy = Fin 2, psumxx = Fin 2, psumxy = Fin 1,
               psumyy = Fin 2, psums4 = Fin 0 \<rparr>)"
    by (simp add: calcmom_def calcmom_sums_flat_2x2 fallback_state_def amom_init_def write_sums_def
        zero_moments_def Let_def)
  from unweighted_fallback [OF u, of "flat_image 2 2 1" "Fin 0" "Fin 0" "Fin 0"]
  have "amom_finish (flat_image 2 2 1) (Fin 0) (Fin 0) (Fin 0) fallback_state =
          amom_report (flat_image 2 2 1) (Fin 0) (Fin 0)
            ((amom_flagged fallback_state)
               \<lparr> v_w11 := Fin 0, v_w12 := Fin 0, v_w22 := Fin 0,
                 v_sums := \<lparr> psum = Fin 4, psumx = Fin 2, psumy = Fin 2, psumxx = Fin 2,
                              psumxy = Fin 1, psumyy = Fin 2, psums4 = Fin 0 \<rparr>,
                 v_sigma11W := Fin 2 / Fin 4,
                 v_sigma12W := Fin 1 / Fin 4,
                 v_sigma22W := Fin 2 / Fin 4 \<rparr>)"
    unfolding c by auto
  then show ?thesis
    by (simp add: amom_report_def fallback_state_def amom_flagged_def amom_init_def set_flag_def
        Let_def MAXIT_def zero_moments_def bindE_def in_int_range_def blank_shape_def)
qed

text \<open>
  The claim as stated has the default moments written whenever the rerun fails or its sum
  is at most 0. For a one-pixel image of value 0 the rerun fails with sum 0: the call
  returns false with UNWEIGHTED_BAD, and Ixx is still what the caller passed in, not 1/12.
\<close>

theorem unweighted_fallback_counterexample:
  "calcmom False (flat_image 1 1 0) (Fin 0) (Fin 0)
     \<lparr> getMinX = 0, getMinY = 0, getMaxX = 0, getMaxY = 0 \<rparr> (Fin 0) False
     (Fin 0) (Fin 0) (Fin 0) False zero_moments = Inr (- 1, zero_moments)
   \<and> getAdaptiveMoments (flat_image 1 1 0) (Fin 0) (Fin 0) (Fin 0) (Fin 2) blank_shape zero_moments =
       Inr (False, blank_shape \<lparr> getFlags := {SHAPE_UNWEIGHTED_BAD} \<rparr>)
   \<and> getIxx (blank_shape \<lparr> getFlags := {SHAPE_UNWEIGHTED_BAD} \<rparr>) \<noteq> Fin (1/12)"
proof -
  have "calcmom False (flat_image 1 1 0) (Fin 0) (Fin 0)
     \<lparr> getMinX = 0, getMinY = 0, getMaxX = 0, getMaxY = 0 \<rparr> (Fin 0) False
     (Fin 0) (Fin 0) (Fin 0) False zero_moments = Inr (- 1, zero_moments)"
    by (simp add: calcmom_zero_pixel write_sums_def zero_moments_def)
  moreover have "getIxx (blank_shape \<lparr> getFlags := {SHAPE_UNWEIGHTED_BAD} \<rparr>) \<noteq> Fin (1/12)"
    by (simp add: blank_shape_def)
  ultimately show ?thesis
    using zero_pixel_run by simp
qed

end
